theory Spec2Isabelle
  imports Main
begin

section \<open>The host object model\<close>

text \<open>
  The handler of the Toolkit Arnold node works on the node graph of the host session:
  nodes with parameters, a user-data store, input connections, a name and a position.
  The host is not part of the repository; the part of it the handler calls is modelled
  here as an explicit store, and every call that can raise in the host returns an error
  value.  A raised exception keeps the mutations made before it, so every operation
  returns the state next to its result.
\<close>

datatype error =
    TankError string
  | InvalidInput string
  | TypeError
  | AttributeError
  | IndexError
  | KeyError string
  | PermissionError
  | OperationFailed
  | ObjectWasDeleted

datatype pval = IntV int | StrV string

datatype parm_template =
    FolderSetParmTemplate
  | StringParmTemplate
  | IntParmTemplate
  | ToggleParmTemplate
  | MenuParmTemplate

datatype keyframe = Keyframe int string

record parm =
  ptemplate :: parm_template
  raw :: pval
  keyframes :: "keyframe list"
  locked :: bool
  menu_labels :: "string list"

type_synonym node_id = nat

record node =
  ntype :: string
  nname :: string
  nparent :: node_id
  npos :: "int \<times> int"
  parms :: "(string \<times> parm) list"
  user_data :: "(string \<times> string) list"
  inputs :: "(node_id \<times> nat) option list"
  connectors :: nat

datatype log_level = Debug | Warning | Error

record hou_state =
  nodes :: "node_id \<Rightarrow> node option"
  next_id :: node_id
  pwd :: node_id
  hip_path :: string
  log :: "(log_level \<times> string) list"

text \<open>
  What the host fixes for a session: the parameters, the number of input connectors and
  the default name of a new node of each node type, how a string value expands, what an
  animated parameter evaluates to, and the path separator of the platform.
\<close>

record hou_env =
  type_parms :: "string \<Rightarrow> (string \<times> parm) list option"
  type_connectors :: "string \<Rightarrow> nat"
  default_name :: "string \<Rightarrow> hou_state \<Rightarrow> string"
  expand :: "string \<Rightarrow> string"
  anim_value :: "keyframe list \<Rightarrow> pval"
  os_sep :: char

type_synonym 'a hou = "hou_state \<Rightarrow> (error + 'a) \<times> hou_state"

definition ret :: "'a \<Rightarrow> 'a hou" where
  "ret x = (\<lambda>s. (Inr x, s))"

definition raise :: "error \<Rightarrow> 'a hou" where
  "raise e = (\<lambda>s. (Inl e, s))"

definition bnd :: "'a hou \<Rightarrow> ('a \<Rightarrow> 'b hou) \<Rightarrow> 'b hou" where
  "bnd m f = (\<lambda>s. case m s of (Inl e, s') \<Rightarrow> (Inl e, s') | (Inr x, s') \<Rightarrow> f x s')"

definition catch :: "'a hou \<Rightarrow> (error \<Rightarrow> 'a hou) \<Rightarrow> 'a hou" where
  "catch m h = (\<lambda>s. case m s of (Inl e, s') \<Rightarrow> h e s' | (Inr x, s') \<Rightarrow> (Inr x, s'))"

primrec foreach :: "'a list \<Rightarrow> ('a \<Rightarrow> unit hou) \<Rightarrow> unit hou" where
  "foreach [] f = ret ()"
| "foreach (x # xs) f = bnd (f x) (\<lambda>_. foreach xs f)"

subsection \<open>Python values\<close>

definition startswith :: "string \<Rightarrow> string \<Rightarrow> bool" where
  "startswith s p = (take (length p) s = p)"

definition py_index :: "'a list \<Rightarrow> int \<Rightarrow> error + 'a" where
  \<comment> \<open>\<open>xs[i]\<close>: an index below zero counts back from the end of the sequence.\<close>
  "py_index xs i =
     (if 0 \<le> i \<and> i < int (length xs) then Inr (xs ! nat i)
      else if i < 0 \<and> - i \<le> int (length xs) then Inr (xs ! nat (int (length xs) + i))
      else Inl IndexError)"

definition truthy :: "pval \<Rightarrow> bool" where
  "truthy v = (case v of IntV i \<Rightarrow> i \<noteq> 0 | StrV s \<Rightarrow> s \<noteq> [])"

definition digit_char :: "nat \<Rightarrow> char" where
  "digit_char d = char_of (48 + d)"

fun str_nat :: "nat \<Rightarrow> string" where
  "str_nat n = (if n < 10 then [digit_char n] else str_nat (n div 10) @ [digit_char (n mod 10)])"

declare str_nat.simps [simp del]

definition str_int :: "int \<Rightarrow> string" where
  "str_int i = (if i < 0 then CHR ''-'' # str_nat (nat (- i)) else str_nat (nat i))"


subsection \<open>Logging of the application\<close>

definition log_debug :: "string \<Rightarrow> unit hou" where
  "log_debug msg = (\<lambda>s. (Inr (), s\<lparr>log := log s @ [(Debug, msg)]\<rparr>))"

definition log_warning :: "string \<Rightarrow> unit hou" where
  "log_warning msg = (\<lambda>s. (Inr (), s\<lparr>log := log s @ [(Warning, msg)]\<rparr>))"

subsection \<open>Nodes\<close>

definition get_node :: "node_id \<Rightarrow> node hou" where
  "get_node nid = (\<lambda>s. case nodes s nid of None \<Rightarrow> (Inl ObjectWasDeleted, s) | Some n \<Rightarrow> (Inr n, s))"

definition modify_node :: "node_id \<Rightarrow> (node \<Rightarrow> node) \<Rightarrow> unit hou" where
  "modify_node nid f =
     (\<lambda>s. case nodes s nid of
        None \<Rightarrow> (Inl ObjectWasDeleted, s)
      | Some n \<Rightarrow> (Inr (), s\<lparr>nodes := (nodes s)(nid \<mapsto> f n)\<rparr>))"

definition node_name :: "node_id \<Rightarrow> string hou" where
  "node_name nid = bnd (get_node nid) (\<lambda>n. ret (nname n))"

definition node_str :: "node_id \<Rightarrow> string hou" where
  \<comment> \<open>\<open>str(node)\<close>: the printed form of a node is its name.\<close>
  "node_str nid = node_name nid"

definition node_position :: "node_id \<Rightarrow> (int \<times> int) hou" where
  "node_position nid = bnd (get_node nid) (\<lambda>n. ret (npos n))"

definition node_parent :: "node_id \<Rightarrow> node_id hou" where
  "node_parent nid = bnd (get_node nid) (\<lambda>n. ret (nparent n))"

definition setPosition :: "node_id \<Rightarrow> int \<times> int \<Rightarrow> unit hou" where
  "setPosition nid p = modify_node nid (\<lambda>n. n\<lparr>npos := p\<rparr>)"

definition all_ids :: "hou_state \<Rightarrow> node_id list" where
  "all_ids s = filter (\<lambda>i. nodes s i \<noteq> None) [0..<next_id s]"

definition name_taken :: "hou_state \<Rightarrow> node_id \<Rightarrow> string \<Rightarrow> bool" where
  "name_taken s nid nm =
     (case nodes s nid of
        None \<Rightarrow> False
      | Some n \<Rightarrow> list_ex (\<lambda>i. i \<noteq> nid \<and>
          (case nodes s i of None \<Rightarrow> False | Some m \<Rightarrow> nparent m = nparent n \<and> nname m = nm))
          (all_ids s))"

definition setName :: "node_id \<Rightarrow> string \<Rightarrow> unit hou" where
  \<comment> \<open>\<open>setName(name)\<close> without \<open>unique_name\<close>: refused when a sibling holds the name.\<close>
  "setName nid nm =
     (\<lambda>s. if name_taken s nid nm then (Inl OperationFailed, s)
           else modify_node nid (\<lambda>n. n\<lparr>nname := nm\<rparr>) s)"

definition instances :: "hou_env \<Rightarrow> string \<Rightarrow> node_id list hou" where
  \<comment> \<open>\<open>hou.nodeType(category, name).instances()\<close>; \<open>hou.nodeType\<close> is \<open>None\<close> for an
      unknown type.\<close>
  "instances env ty =
     (\<lambda>s. case type_parms env ty of
        None \<Rightarrow> (Inl AttributeError, s)
      | Some _ \<Rightarrow>
          (Inr (filter (\<lambda>i. case nodes s i of None \<Rightarrow> False | Some n \<Rightarrow> ntype n = ty) (all_ids s)), s))"

definition createNode :: "hou_env \<Rightarrow> node_id \<Rightarrow> string \<Rightarrow> node_id hou" where
  "createNode env parent ty =
     (\<lambda>s. case type_parms env ty of
        None \<Rightarrow> (Inl OperationFailed, s)
      | Some ps \<Rightarrow>
          (Inr (next_id s),
           s\<lparr>nodes := (nodes s)(next_id s \<mapsto>
                \<lparr>ntype = ty, nname = default_name env ty s, nparent = parent, npos = (0, 0),
                 parms = ps, user_data = [], inputs = [], connectors = type_connectors env ty\<rparr>),
             next_id := Suc (next_id s)\<rparr>))"

definition disconnect :: "node_id \<Rightarrow> node \<Rightarrow> node" where
  "disconnect nid n =
     n\<lparr>inputs := map (\<lambda>c. case c of None \<Rightarrow> None
                           | Some (m, out) \<Rightarrow> if m = nid then None else Some (m, out)) (inputs n)\<rparr>"

definition destroy :: "node_id \<Rightarrow> unit hou" where
  \<comment> \<open>Destroying a node removes it and every connection from it.\<close>
  "destroy nid =
     (\<lambda>s. case nodes s nid of
        None \<Rightarrow> (Inl ObjectWasDeleted, s)
      | Some _ \<Rightarrow>
          (Inr (), s\<lparr>nodes := (\<lambda>i. if i = nid then None else map_option (disconnect nid) (nodes s i))\<rparr>))"

subsection \<open>User data\<close>

definition userDataDict :: "node_id \<Rightarrow> (string \<times> string) list hou" where
  "userDataDict nid = bnd (get_node nid) (\<lambda>n. ret (user_data n))"

definition setUserData :: "node_id \<Rightarrow> string \<Rightarrow> pval \<Rightarrow> unit hou" where
  \<comment> \<open>The user-data store holds strings only.\<close>
  "setUserData nid k v =
     (case v of
        IntV _ \<Rightarrow> raise TypeError
      | StrV s \<Rightarrow> modify_node nid (\<lambda>n. n\<lparr>user_data := (k, s) # filter (\<lambda>kv. fst kv \<noteq> k) (user_data n)\<rparr>))"

subsection \<open>Parameters\<close>

definition node_parm :: "node_id \<Rightarrow> string \<Rightarrow> parm option hou" where
  \<comment> \<open>\<open>node.parm(name)\<close>: \<open>None\<close> when the node has no parameter of that name.\<close>
  "node_parm nid nm = bnd (get_node nid) (\<lambda>n. ret (map_of (parms n) nm))"

definition the_parm :: "node_id \<Rightarrow> string \<Rightarrow> parm hou" where
  \<comment> \<open>\<open>node.parm(name).method\<close>: a method call on \<open>None\<close> is an AttributeError.\<close>
  "the_parm nid nm =
     bnd (node_parm nid nm) (\<lambda>p. case p of None \<Rightarrow> raise AttributeError | Some q \<Rightarrow> ret q)"

definition node_parms :: "node_id \<Rightarrow> string list hou" where
  "node_parms nid = bnd (get_node nid) (\<lambda>n. ret (map fst (parms n)))"

definition update_parm :: "string \<Rightarrow> (parm \<Rightarrow> parm) \<Rightarrow> node \<Rightarrow> node" where
  "update_parm nm f n =
     n\<lparr>parms := map (\<lambda>kp. if fst kp = nm then (fst kp, f (snd kp)) else kp) (parms n)\<rparr>"

definition eval_parm :: "hou_env \<Rightarrow> parm \<Rightarrow> pval" where
  "eval_parm env p =
     (if keyframes p \<noteq> [] then anim_value env (keyframes p)
      else case raw p of StrV s \<Rightarrow> StrV (expand env s) | IntV i \<Rightarrow> IntV i)"

definition parm_eval :: "hou_env \<Rightarrow> node_id \<Rightarrow> string \<Rightarrow> pval hou" where
  "parm_eval env nid nm = bnd (the_parm nid nm) (\<lambda>p. ret (eval_parm env p))"

definition parm_unexpandedString :: "node_id \<Rightarrow> string \<Rightarrow> string hou" where
  "parm_unexpandedString nid nm =
     bnd (the_parm nid nm) (\<lambda>p. case raw p of StrV s \<Rightarrow> ret s | IntV _ \<Rightarrow> raise OperationFailed)"

definition parm_menuLabels :: "node_id \<Rightarrow> string \<Rightarrow> string list hou" where
  "parm_menuLabels nid nm = bnd (the_parm nid nm) (\<lambda>p. ret (menu_labels p))"

definition parm_keyframes :: "node_id \<Rightarrow> string \<Rightarrow> keyframe list hou" where
  "parm_keyframes nid nm = bnd (the_parm nid nm) (\<lambda>p. ret (keyframes p))"

definition parm_accepts :: "parm_template \<Rightarrow> pval \<Rightarrow> bool" where
  \<comment> \<open>A string parameter takes strings, every other parameter takes numbers.\<close>
  "parm_accepts t v =
     (case v of StrV _ \<Rightarrow> t = StringParmTemplate | IntV _ \<Rightarrow> t \<noteq> StringParmTemplate)"

definition parm_set :: "node_id \<Rightarrow> string \<Rightarrow> pval \<Rightarrow> unit hou" where
  \<comment> \<open>\<open>parm.set(value)\<close>: a locked parameter refuses the write, a value of the wrong
      type is a TypeError.\<close>
  "parm_set nid nm v =
     bnd (the_parm nid nm) (\<lambda>p.
       if locked p then raise PermissionError
       else if \<not> parm_accepts (ptemplate p) v then raise TypeError
       else modify_node nid (update_parm nm (\<lambda>q. q\<lparr>raw := v\<rparr>)))"

definition parm_lock :: "node_id \<Rightarrow> string \<Rightarrow> bool \<Rightarrow> unit hou" where
  "parm_lock nid nm b =
     bnd (the_parm nid nm) (\<lambda>_. modify_node nid (update_parm nm (\<lambda>q. q\<lparr>locked := b\<rparr>)))"

definition parm_setKeyframe :: "node_id \<Rightarrow> string \<Rightarrow> keyframe \<Rightarrow> unit hou" where
  "parm_setKeyframe nid nm k =
     bnd (the_parm nid nm) (\<lambda>p.
       if locked p then raise PermissionError
       else modify_node nid (update_parm nm (\<lambda>q. q\<lparr>keyframes := keyframes q @ [k]\<rparr>)))"

subsection \<open>Connections\<close>

text \<open>
  A node's inputs are a list of slots, \<open>None\<close> for an unconnected slot; the connection
  in a slot names the upstream node and the index of its output.  The outputs of a node
  are the slots of the other nodes that name it.
\<close>

definition input_connections_of :: "node \<Rightarrow> (nat \<times> node_id \<times> nat) list" where
  "input_connections_of n =
     concat (map (\<lambda>i. case inputs n ! i of None \<Rightarrow> [] | Some c \<Rightarrow> [(i, c)])
                 [0..<length (inputs n)])"

definition inputConnections :: "node_id \<Rightarrow> (nat \<times> node_id \<times> nat) list hou" where
  "inputConnections nid = bnd (get_node nid) (\<lambda>n. ret (input_connections_of n))"

definition inputConnectors :: "node_id \<Rightarrow> nat hou" where
  "inputConnectors nid = bnd (get_node nid) (\<lambda>n. ret (connectors n))"

definition slots_to :: "node_id \<Rightarrow> node \<Rightarrow> nat list" where
  "slots_to src n =
     filter (\<lambda>i. case inputs n ! i of None \<Rightarrow> False | Some (m, out) \<Rightarrow> m = src)
            [0..<length (inputs n)]"

definition outputs_of :: "hou_state \<Rightarrow> node_id \<Rightarrow> (node_id \<times> nat) list" where
  "outputs_of s src =
     concat (map (\<lambda>d. case nodes s d of None \<Rightarrow> [] | Some n \<Rightarrow> map (\<lambda>i. (d, i)) (slots_to src n))
                 (all_ids s))"

definition outputConnections :: "node_id \<Rightarrow> (node_id \<times> nat) list hou" where
  "outputConnections nid = bnd (get_node nid) (\<lambda>_. (\<lambda>s. (Inr (outputs_of s nid), s)))"

definition set_slot :: "nat \<Rightarrow> 'a option \<Rightarrow> 'a option list \<Rightarrow> 'a option list" where
  "set_slot i c xs = (xs @ replicate (Suc i - length xs) None)[i := c]"

definition setInput :: "node_id \<Rightarrow> nat \<Rightarrow> node_id \<Rightarrow> unit hou" where
  \<comment> \<open>\<open>node.setInput(input_index, item)\<close> connects output 0 of \<open>item\<close> to the slot.\<close>
  "setInput nid i item = modify_node nid (\<lambda>n. n\<lparr>inputs := set_slot i (Some (item, 0)) (inputs n)\<rparr>)"


section \<open>The handler\<close>

subsection \<open>Class data\<close>

definition HOU_ARNOLD_NODE_TYPE :: string where
  "HOU_ARNOLD_NODE_TYPE = ''ifd''"

definition NODE_OUTPUT_PATH_PARM :: string where
  "NODE_OUTPUT_PATH_PARM = ''sgtk_ar_filename''"

definition TK_EXTRA_PLANE_COUNT_PARM :: string where
  "TK_EXTRA_PLANE_COUNT_PARM = ''ar_aovs''"

definition TK_EXTRA_PLANE_TEMPLATE_MAPPING :: "(string \<times> string) list" where
  "TK_EXTRA_PLANE_TEMPLATE_MAPPING = [(''sgtk_ar_aov_separate_file#'', ''output_extra_plane_template'')]"

definition TK_EXTRA_PLANES_NAME :: "int \<Rightarrow> string" where
  "TK_EXTRA_PLANES_NAME k = ''ar_aov_label'' @ str_int k"

definition TK_INIT_PARM_NAME :: string where
  "TK_INIT_PARM_NAME = ''sgtk_initialized''"

definition TK_HIP_PATH_PARM_NAME :: string where
  "TK_HIP_PATH_PARM_NAME = ''sgtk_hip_path''"

definition TK_ARNOLD_NODE_TYPE :: string where
  "TK_ARNOLD_NODE_TYPE = ''sgtk_arnold''"

definition TK_OUTPUT_PROFILE_PARM :: string where
  "TK_OUTPUT_PROFILE_PARM = ''sgtk_output_profile''"

definition TK_OUTPUT_PROFILE_NAME_KEY :: string where
  "TK_OUTPUT_PROFILE_NAME_KEY = ''tk_output_profile_name''"

definition TK_RENDER_TEMPLATE_MAPPING :: "(string \<times> string) list" where
  "TK_RENDER_TEMPLATE_MAPPING =
     [(''sgtk_ass_diskfile'', ''output_ifd_template''),
      (''sgtk_ar_filename'', ''output_render_template'')]"

definition TK_DEFAULT_UPDATE_PARM_MAPPING :: "(string \<times> string) list" where
  "TK_DEFAULT_UPDATE_PARM_MAPPING =
     [(''sgtk_ass_diskfile'', ''ar_ass_file''),
      (''sgtk_ar_picture'', ''ar_picture'')]"

subsection \<open>Python objects passed where the host expects a name\<close>

datatype pyobj = PyNone | PyBool bool | PyStr string | PyParm node_id string

definition py_truth :: "pyobj \<Rightarrow> bool" where
  "py_truth a = (case a of PyNone \<Rightarrow> False | PyBool b \<Rightarrow> b | PyStr s \<Rightarrow> s \<noteq> [] | PyParm _ _ \<Rightarrow> True)"

definition parm_path_arg :: "pyobj \<Rightarrow> string hou" where
  \<comment> \<open>\<open>node.parm(x)\<close> takes a string; any other argument is a TypeError of the binding.\<close>
  "parm_path_arg a = (case a of PyStr s \<Rightarrow> ret s | _ \<Rightarrow> raise TypeError)"

subsection \<open>Utility methods\<close>

definition not_enough_inputs :: "string \<Rightarrow> string \<Rightarrow> string" where
  "not_enough_inputs a b =
     ''Not enough inputs on target node. Cannot copy inputs from '' @
     [CHR 0x27] @ a @ [CHR 0x27] @ '' to '' @ [CHR 0x27] @ b @ [CHR 0x27]"

definition copy_inputs :: "node_id \<Rightarrow> node_id \<Rightarrow> unit hou" where
  "copy_inputs source_node target_node =
     bnd (inputConnections source_node) (\<lambda>input_connections.
     bnd (inputConnectors target_node) (\<lambda>num_target_inputs.
       if length input_connections > num_target_inputs then
         bnd (node_str source_node) (\<lambda>a.
         bnd (node_str target_node) (\<lambda>b.
           raise (InvalidInput (not_enough_inputs a b))))
       else
         foreach input_connections (\<lambda>connection.
           setInput target_node (fst connection) (fst (snd connection)))))"

definition value_map :: "string list" where
  "value_map = [''hscript'', ''python'']"

definition value_map_at :: "pval \<Rightarrow> string hou" where
  \<comment> \<open>\<open>value_map[source_parm.eval()]\<close>: a list index is an integer, in range.\<close>
  "value_map_at v =
     (case v of
        StrV _ \<Rightarrow> raise TypeError
      | IntV i \<Rightarrow> (case py_index value_map i of Inl e \<Rightarrow> raise e | Inr s \<Rightarrow> ret s))"

definition copy_parm_value :: "hou_env \<Rightarrow> node_id \<Rightarrow> node_id \<Rightarrow> string \<Rightarrow> unit hou" where
  \<comment> \<open>The body of the loop of \<open>_copy_parm_values\<close>, for the source parameter \<open>nm\<close>.\<close>
  "copy_parm_value env source_node target_node nm =
     bnd (the_parm source_node nm) (\<lambda>source_parm.
       if ptemplate source_parm = FolderSetParmTemplate then ret ()
       else
         bnd (node_parm target_node nm) (\<lambda>target_parm.
           case target_parm of
             None \<Rightarrow> ret ()
           | Some _ \<Rightarrow>
               if keyframes source_parm \<noteq> [] then
                 bnd (parm_keyframes source_node nm) (\<lambda>keys.
                   foreach keys (\<lambda>key. parm_setKeyframe target_node nm key))
               else if ptemplate source_parm = StringParmTemplate then
                 bnd (parm_unexpandedString source_node nm) (\<lambda>s.
                   parm_set target_node nm (StrV s))
               else
                 catch
                   (bnd (parm_eval env source_node nm) (\<lambda>v. parm_set target_node nm v))
                   (\<lambda>e. if e = TypeError then
                          if startswith nm ''lpre'' \<or> startswith nm ''lpost'' then
                            bnd (parm_eval env source_node nm) (\<lambda>v.
                            bnd (value_map_at v) (\<lambda>s.
                              parm_set target_node nm (StrV s)))
                          else raise e
                        else raise e)))"

definition copy_parm_values :: "hou_env \<Rightarrow> node_id \<Rightarrow> node_id \<Rightarrow> pyobj list \<Rightarrow> unit hou" where
  "copy_parm_values env source_node target_node excludes =
     (let excludes = (if excludes = [] then [] else excludes) in
      bnd (node_parms source_node) (\<lambda>names.
        let source_parms = filter (\<lambda>nm. PyStr nm \<notin> set excludes) names in
        foreach source_parms (copy_parm_value env source_node target_node)))"

definition get_extra_plane_numbers :: "hou_env \<Rightarrow> node_id \<Rightarrow> int list hou" where
  "get_extra_plane_numbers env nid =
     bnd (parm_eval env nid TK_EXTRA_PLANE_COUNT_PARM) (\<lambda>v.
       case v of
         StrV _ \<Rightarrow> raise TypeError
       | IntV n \<Rightarrow> ret [1..n])"

definition move_outputs :: "node_id \<Rightarrow> node_id \<Rightarrow> unit hou" where
  "move_outputs source_node target_node =
     bnd (outputConnections source_node) (\<lambda>connections.
       foreach connections (\<lambda>connection.
         setInput (fst connection) (snd connection) target_node))"

subsection \<open>Conversion between the two node types\<close>

definition menu_label_at :: "string list \<Rightarrow> pval \<Rightarrow> string hou" where
  \<comment> \<open>\<open>parm.menuLabels()[parm.eval()]\<close>\<close>
  "menu_label_at labels v =
     (case v of
        StrV _ \<Rightarrow> raise TypeError
      | IntV i \<Rightarrow> (case py_index labels i of Inl e \<Rightarrow> raise e | Inr s \<Rightarrow> ret s))"

definition convert_to_regular_arnold_node :: "hou_env \<Rightarrow> node_id \<Rightarrow> unit hou" where
  \<comment> \<open>The body of the loop of \<open>convert_to_regular_arnold_nodes\<close>.\<close>
  "convert_to_regular_arnold_node env tk_arnold_node =
     bnd (node_parent tk_arnold_node) (\<lambda>parent.
     bnd (createNode env parent HOU_ARNOLD_NODE_TYPE) (\<lambda>arnold_node.
     bnd (node_parms tk_arnold_node) (\<lambda>names.
     let exclude_parms = map (PyParm tk_arnold_node) (filter (\<lambda>nm. startswith nm ''sgtk_'') names) in
     bnd (copy_parm_values env tk_arnold_node arnold_node exclude_parms) (\<lambda>_.
     bnd (parm_menuLabels tk_arnold_node TK_OUTPUT_PROFILE_PARM) (\<lambda>labels.
     bnd (parm_eval env tk_arnold_node TK_OUTPUT_PROFILE_PARM) (\<lambda>v.
     bnd (menu_label_at labels v) (\<lambda>tk_output_profile_name.
     bnd (setUserData arnold_node TK_OUTPUT_PROFILE_NAME_KEY (StrV tk_output_profile_name)) (\<lambda>_.
     bnd (get_extra_plane_numbers env tk_arnold_node) (\<lambda>plane_numbers.
     bnd (foreach plane_numbers (\<lambda>plane_number.
            let plane_parm_name = TK_EXTRA_PLANES_NAME plane_number in
            bnd (parm_eval env tk_arnold_node plane_parm_name) (\<lambda>label.
              setUserData arnold_node plane_parm_name label))) (\<lambda>_.
     bnd (copy_inputs tk_arnold_node arnold_node) (\<lambda>_.
     bnd (move_outputs tk_arnold_node arnold_node) (\<lambda>_.
     bnd (node_name tk_arnold_node) (\<lambda>tk_arnold_node_name.
     bnd (node_position tk_arnold_node) (\<lambda>tk_arnold_node_pos.
     bnd (destroy tk_arnold_node) (\<lambda>_.
     bnd (setName arnold_node tk_arnold_node_name) (\<lambda>_.
     bnd (setPosition arnold_node tk_arnold_node_pos) (\<lambda>_.
       log_debug (''Converted: Tk Arnold node '' @ [CHR 0x27] @ tk_arnold_node_name @ [CHR 0x27] @
                  '' to Arnold node.''))))))))))))))))))"

definition convert_to_regular_arnold_nodes :: "hou_env \<Rightarrow> unit hou" where
  "convert_to_regular_arnold_nodes env =
     bnd (instances env TK_ARNOLD_NODE_TYPE) (\<lambda>tk_arnold_nodes.
       if tk_arnold_nodes = [] then log_debug ''No Toolkit Arnold Nodes found for conversion.''
       else foreach tk_arnold_nodes (convert_to_regular_arnold_node env))"





subsection \<open>The toolkit application behind the handler\<close>

text \<open>
  Templates, the context and the settings belong to the pipeline-configuration engine.
  A template is what the handler calls on it; the handler keeps the application's
  templates and the output profiles it cached at construction.
\<close>

type_synonym fields = "string \<rightharpoonup> pval option"

record template =
  validate :: "string \<Rightarrow> bool"
  get_fields :: "string \<Rightarrow> (string \<times> pval) list"
  apply_fields :: "fields \<Rightarrow> error + string"

record handler =
  work_file_template :: "template option"
  get_template_by_name :: "string \<Rightarrow> template option"
  as_template_fields :: "template \<Rightarrow> fields"
  output_profiles :: "(string \<times> (string \<times> string) list) list"

definition hipFile_path :: "string hou" where
  "hipFile_path = (\<lambda>s. (Inr (hip_path s), s))"

definition hou_pwd :: "node_id hou" where
  "hou_pwd = (\<lambda>s. (Inr (pwd s), s))"

definition dict_item :: "(string \<times> 'a) list \<Rightarrow> string \<Rightarrow> 'a hou" where
  \<comment> \<open>\<open>d[key]\<close>\<close>
  "dict_item d k = (case map_of d k of None \<Rightarrow> raise (KeyError k) | Some v \<Rightarrow> ret v)"

definition str_replace_char :: "char \<Rightarrow> string \<Rightarrow> string \<Rightarrow> string" where
  \<comment> \<open>\<open>s.replace(c, r)\<close> for a one-character \<open>c\<close>\<close>
  "str_replace_char c r s = concat (map (\<lambda>x. if x = c then r else [x]) s)"

subsection \<open>Private methods\<close>

definition get_hipfile_fields :: "handler \<Rightarrow> (string \<times> pval) list hou" where
  "get_hipfile_fields self =
     bnd hipFile_path (\<lambda>current_file_path.
       let work_fields = [] in
       case work_file_template self of
         None \<Rightarrow> ret work_fields
       | Some t \<Rightarrow>
           if validate t current_file_path then ret (get_fields t current_file_path)
           else ret work_fields)"

definition get_output_profile :: "hou_env \<Rightarrow> handler \<Rightarrow> node_id option \<Rightarrow> (string \<times> string) list hou" where
  "get_output_profile env self node =
     bnd (case node of None \<Rightarrow> hou_pwd | Some n \<Rightarrow> ret n) (\<lambda>node.
     bnd (parm_menuLabels node TK_OUTPUT_PROFILE_PARM) (\<lambda>labels.
     bnd (parm_eval env node TK_OUTPUT_PROFILE_PARM) (\<lambda>v.
     bnd (menu_label_at labels v) (\<lambda>output_profile_name.
       dict_item (output_profiles self) output_profile_name))))"

definition not_a_work_file :: string where
  "not_a_work_file = ''This Houdini file is not a Shotgun Toolkit work file!''"

definition compute_output_path ::
  "hou_env \<Rightarrow> handler \<Rightarrow> node_id \<Rightarrow> string \<Rightarrow> pval option \<Rightarrow> string hou" where
  "compute_output_path env self node template_name aov_name =
     bnd (get_hipfile_fields self) (\<lambda>work_file_fields.
       if work_file_fields = [] then raise (TankError not_a_work_file)
       else
         bnd (get_output_profile env self (Some node)) (\<lambda>output_profile.
         bnd (dict_item output_profile template_name) (\<lambda>output_template_name.
         bnd (node_name node) (\<lambda>name.
           let output_template = get_template_by_name self output_template_name;
               fields = [''name'' \<mapsto> map_of work_file_fields ''name'',
                         ''node'' \<mapsto> Some (StrV name),
                         ''renderpass'' \<mapsto> Some (StrV name),
                         ''SEQ'' \<mapsto> Some (StrV ''FORMAT: $F''),
                         ''version'' \<mapsto> map_of work_file_fields ''version''];
               fields = fields(''eye'' \<mapsto> Some (StrV ''%V''));
               fields = (case aov_name of
                           None \<Rightarrow> fields
                         | Some a \<Rightarrow> if truthy a then fields(''aov_name'' \<mapsto> Some a) else fields)
           in case output_template of
                None \<Rightarrow> raise AttributeError
              | Some t \<Rightarrow>
                  (let fields = fields ++ as_template_fields self t in
                   case apply_fields t fields of
                     Inl e \<Rightarrow> raise e
                   | Inr path \<Rightarrow> ret (str_replace_char (os_sep env) ''/'' path))))))"

definition compute_and_set ::
  "hou_env \<Rightarrow> handler \<Rightarrow> node_id \<Rightarrow> string \<Rightarrow> string \<Rightarrow> pval option \<Rightarrow> unit hou" where
  "compute_and_set env self node parm_name template_name aov_name =
     bnd (catch (compute_output_path env self node template_name aov_name)
            (\<lambda>err. case err of
               TankError msg \<Rightarrow>
                 bnd (node_name node) (\<lambda>nm.
                 bnd (log_warning (nm @ '': '' @ msg)) (\<lambda>_.
                   ret (''ERROR: '' @ msg)))
             | _ \<Rightarrow> raise err)) (\<lambda>path.
     bnd (parm_lock node parm_name False) (\<lambda>_.
     bnd (parm_set node parm_name (StrV path)) (\<lambda>_.
       parm_lock node parm_name True)))"

subsection \<open>Methods and callbacks executed via the OTL\<close>

definition copy_parm :: "node_id \<Rightarrow> string \<Rightarrow> string \<Rightarrow> unit hou" where
  \<comment> \<open>The lambda of \<open>update_parms\<close>: \<open>node.parm(p2).set(node.parm(p1).unexpandedString())\<close>\<close>
  "copy_parm node p1 p2 =
     bnd (the_parm node p2) (\<lambda>_.
     bnd (parm_unexpandedString node p1) (\<lambda>s.
       parm_set node p2 (StrV s)))"

definition update_parms :: "hou_env \<Rightarrow> node_id option \<Rightarrow> unit hou" where
  "update_parms env node =
     bnd (case node of None \<Rightarrow> hou_pwd | Some n \<Rightarrow> ret n) (\<lambda>node.
     bnd (foreach TK_DEFAULT_UPDATE_PARM_MAPPING (\<lambda>item. copy_parm node (fst item) (snd item))) (\<lambda>_.
     bnd (get_extra_plane_numbers env node) (\<lambda>plane_numbers.
       foreach plane_numbers (\<lambda>plane_number.
         let parm1 = ''sgtk_ar_aov_separate_file'' @ str_int plane_number;
             parm2 = ''ar_aov_separate_file'' @ str_int plane_number
         in copy_parm node parm1 parm2))))"

definition reset_render_path :: "hou_env \<Rightarrow> handler \<Rightarrow> node_id option \<Rightarrow> unit hou" where
  "reset_render_path env self node =
     bnd (case node of None \<Rightarrow> hou_pwd | Some n \<Rightarrow> ret n) (\<lambda>node.
     bnd (node_name node) (\<lambda>name.
       if startswith name ''original0'' then ret ()
       else
         bnd (foreach TK_RENDER_TEMPLATE_MAPPING (\<lambda>item.
                compute_and_set env self node (fst item) (snd item) None)) (\<lambda>_.
         bnd (get_extra_plane_numbers env node) (\<lambda>plane_numbers.
         bnd (foreach plane_numbers (\<lambda>plane_number.
                bnd (parm_eval env node (''ar_aov_separate'' @ str_int plane_number)) (\<lambda>usefile.
                  if truthy usefile then
                    foreach TK_EXTRA_PLANE_TEMPLATE_MAPPING (\<lambda>item.
                      let parm_name = str_replace_char CHR ''#'' (str_int plane_number) (fst item) in
                      bnd (parm_eval env node (TK_EXTRA_PLANES_NAME plane_number)) (\<lambda>aov_name.
                        compute_and_set env self node parm_name (snd item) (Some aov_name)))
                  else ret ()))) (\<lambda>_.
         bnd (parm_unexpandedString node NODE_OUTPUT_PATH_PARM) (\<lambda>path.
         bnd (parm_set node ''sgtk_ar_picture'' (StrV path)) (\<lambda>_.
         bnd (parm_set node ''ar_picture'' (StrV path)) (\<lambda>_.
           update_parms env (Some node)))))))))"

definition get_output_path_menu :: "hou_env \<Rightarrow> handler \<Rightarrow> node_id option \<Rightarrow> string list hou" where
  "get_output_path_menu env self node =
     bnd (if \<not> py_truth PyNone then bnd hou_pwd (\<lambda>n. ret (Some n)) else ret node) (\<lambda>node.
     bnd (case node of None \<Rightarrow> raise AttributeError | Some n \<Rightarrow> ret n) (\<lambda>node.
     bnd (parm_eval env node TK_INIT_PARM_NAME) (\<lambda>init.
     let is_first_run = (init = StrV ''True'') in
     bnd (if is_first_run then
            bnd (parm_path_arg (PyBool is_first_run)) (\<lambda>nm. parm_set node nm (StrV ''False''))
          else ret ()) (\<lambda>_.
     bnd hipFile_path (\<lambda>hip.
     bnd (parm_eval env node TK_HIP_PATH_PARM_NAME) (\<lambda>cached.
     let hip_path_changed = (StrV hip \<noteq> cached) in
     bnd (if is_first_run \<or> hip_path_changed then
            bnd (reset_render_path env self (Some node)) (\<lambda>_.
            bnd hipFile_path (\<lambda>hip.
              parm_set node TK_HIP_PATH_PARM_NAME (StrV hip)))
          else ret ()) (\<lambda>_.
     bnd (parm_unexpandedString node NODE_OUTPUT_PATH_PARM) (\<lambda>path.
       ret [''sgtk'', path,
            ''ip'', ''mplay (interactive)'',
            ''md'', ''mplay (non-interactive)'']))))))))"


section \<open>An example session\<close>

text \<open>
  A small session used to run the operations on concrete inputs: a Toolkit Arnold node
  \<open>beauty\<close> with one upstream and one downstream node, a native node type that shares
  the Arnold parameters, two output profiles and a work-file template that knows one
  scene file.
\<close>

definition mk_parm :: "parm_template \<Rightarrow> pval \<Rightarrow> parm" where
  "mk_parm t v = \<lparr>ptemplate = t, raw = v, keyframes = [], locked = False, menu_labels = []\<rparr>"

definition demo_tk_parms :: "(string \<times> parm) list" where
  "demo_tk_parms =
     [(''sgtk_output_profile'', (mk_parm MenuParmTemplate (IntV 0))\<lparr>menu_labels := [''Exr'', ''Jpeg'']\<rparr>),
      (''sgtk_initialized'', mk_parm StringParmTemplate (StrV ''False'')),
      (''sgtk_hip_path'', mk_parm StringParmTemplate (StrV [])),
      (''sgtk_ar_filename'', (mk_parm StringParmTemplate (StrV []))\<lparr>locked := True\<rparr>),
      (''sgtk_ass_diskfile'', (mk_parm StringParmTemplate (StrV []))\<lparr>locked := True\<rparr>),
      (''sgtk_ar_picture'', mk_parm StringParmTemplate (StrV [])),
      (''folder0'', mk_parm FolderSetParmTemplate (IntV 0)),
      (''ar_picture'', mk_parm StringParmTemplate (StrV [])),
      (''ar_ass_file'', mk_parm StringParmTemplate (StrV [])),
      (''ar_threads'', mk_parm IntParmTemplate (IntV 0)),
      (''ar_aovs'', mk_parm IntParmTemplate (IntV 0)),
      (''ar_aov_label1'', mk_parm StringParmTemplate (StrV [])),
      (''ar_aov_separate1'', mk_parm ToggleParmTemplate (IntV 0)),
      (''sgtk_ar_aov_separate_file1'', (mk_parm StringParmTemplate (StrV []))\<lparr>locked := True\<rparr>),
      (''ar_aov_separate_file1'', mk_parm StringParmTemplate (StrV []))]"

definition demo_arnold_parms :: "(string \<times> parm) list" where
  "demo_arnold_parms =
     [(''folder0'', mk_parm FolderSetParmTemplate (IntV 0)),
      (''ar_picture'', mk_parm StringParmTemplate (StrV [])),
      (''ar_ass_file'', mk_parm StringParmTemplate (StrV [])),
      (''ar_threads'', mk_parm IntParmTemplate (IntV 0)),
      (''ar_aovs'', mk_parm IntParmTemplate (IntV 0)),
      (''ar_aov_label1'', mk_parm StringParmTemplate (StrV [])),
      (''ar_aov_separate1'', mk_parm ToggleParmTemplate (IntV 0)),
      (''ar_aov_separate_file1'', mk_parm StringParmTemplate (StrV []))]"

definition demo_env :: hou_env where
  "demo_env =
     \<lparr>type_parms = (\<lambda>ty. if ty = ''sgtk_arnold'' then Some demo_tk_parms
                          else if ty = ''ifd'' then Some demo_arnold_parms else None),
      type_connectors = (\<lambda>_. 4),
      default_name = (\<lambda>ty s. ty @ str_nat (next_id s)),
      expand = (\<lambda>s. s),
      anim_value = (\<lambda>_. IntV 0),
      os_sep = CHR 0x5C\<rparr>"

definition set_raw :: "string \<Rightarrow> pval \<Rightarrow> (string \<times> parm) list \<Rightarrow> (string \<times> parm) list" where
  "set_raw nm v ps = map (\<lambda>kp. if fst kp = nm then (fst kp, (snd kp)\<lparr>raw := v\<rparr>) else kp) ps"

definition demo_tk_node :: node where
  "demo_tk_node =
     \<lparr>ntype = ''sgtk_arnold'', nname = ''beauty'', nparent = 0, npos = (3, 4),
      parms = set_raw ''folder0'' (IntV 2) (set_raw ''ar_threads'' (IntV 8)
               (set_raw ''sgtk_output_profile'' (IntV 1) (set_raw ''ar_aovs'' (IntV 1)
               (set_raw ''ar_aov_label1'' (StrV ''diffuse'') demo_tk_parms)))),
      user_data = [], inputs = [Some (2, 0)], connectors = 4\<rparr>"

definition demo_other :: "string \<Rightarrow> (node_id \<times> nat) option list \<Rightarrow> node" where
  "demo_other nm ins =
     \<lparr>ntype = ''merge'', nname = nm, nparent = 0, npos = (0, 0),
      parms = [], user_data = [], inputs = ins, connectors = 4\<rparr>"

definition demo_nodes :: "node_id \<Rightarrow> node option" where
  "demo_nodes =
     (\<lambda>i. if i = 1 then Some demo_tk_node
          else if i = 2 then Some (demo_other ''up'' [])
          else if i = 3 then Some (demo_other ''down'' [None, Some (1, 0)])
          else None)"

definition demo_state :: hou_state where
  "demo_state =
     \<lparr>nodes = demo_nodes, next_id = 4, pwd = 1, hip_path = ''/proj/shot_v003.hip'', log = []\<rparr>"

definition demo_template :: template where
  "demo_template =
     \<lparr>validate = (\<lambda>path. path = ''/proj/shot_v003.hip''),
      get_fields = (\<lambda>path. [(''name'', StrV ''shot''), (''version'', IntV 3)]),
      apply_fields = (\<lambda>fields.
        case fields ''node'' of
          Some (Some (StrV n)) \<Rightarrow> Inr (''C:'' @ [CHR 0x5C] @ ''renders'' @ [CHR 0x5C] @ n @ ''.exr'')
        | _ \<Rightarrow> Inl (TankError ''missing field: node''))\<rparr>"

definition demo_profile :: "(string \<times> string) list" where
  "demo_profile =
     [(''output_render_template'', ''arnold_render''),
      (''output_ifd_template'', ''arnold_ass''),
      (''output_extra_plane_template'', ''arnold_aov'')]"

definition demo_handler :: handler where
  "demo_handler =
     \<lparr>work_file_template = Some demo_template,
      get_template_by_name = (\<lambda>nm. Some demo_template),
      as_template_fields = (\<lambda>t. Map.empty),
      output_profiles = [(''Exr'', demo_profile), (''Jpeg'', demo_profile)]\<rparr>"

definition demo_unmanaged_state :: hou_state where
  \<comment> \<open>The same session with a scene file the work-file template does not know.\<close>
  "demo_unmanaged_state = demo_state\<lparr>hip_path := ''/tmp/untitled.hip''\<rparr>"

definition demo_first_run_state :: hou_state where
  \<comment> \<open>The same session with the initialized flag of \<open>beauty\<close> reading \<open>True\<close>.\<close>
  "demo_first_run_state =
     demo_state\<lparr>nodes := (nodes demo_state)(1 \<mapsto>
       demo_tk_node\<lparr>parms := set_raw ''sgtk_initialized'' (StrV ''True'') (parms demo_tk_node)\<rparr>)\<rparr>"

definition demo_script_state :: hou_state where
  \<comment> \<open>A node with index-valued script-language selectors and one with string-valued ones.\<close>
  "demo_script_state =
     \<lparr>nodes = (\<lambda>i. if i = 1 then Some ((demo_other ''old'' [])\<lparr>parms :=
                          [(''lpreframe'', mk_parm MenuParmTemplate (IntV 0)),
                           (''lpostframe'', mk_parm MenuParmTemplate (IntV 1)),
                           (''ar_threads'', mk_parm IntParmTemplate (IntV 8))]\<rparr>)
                  else if i = 2 then Some ((demo_other ''new'' [])\<lparr>parms :=
                          [(''lpreframe'', mk_parm StringParmTemplate (StrV [])),
                           (''lpostframe'', mk_parm StringParmTemplate (StrV [])),
                           (''ar_threads'', mk_parm StringParmTemplate (StrV []))]\<rparr>)
                  else None),
      next_id = 3, pwd = 1, hip_path = ''/proj/shot_v003.hip'', log = []\<rparr>"

definition demo_inputs_state :: hou_state where
  \<comment> \<open>A node with three connected inputs and a node that exposes two input slots.\<close>
  "demo_inputs_state =
     \<lparr>nodes = (\<lambda>i. if i = 1 then Some (demo_other ''src'' [Some (3, 0), Some (4, 0), Some (5, 0)])
                  else if i = 2 then Some ((demo_other ''dst'' [])\<lparr>connectors := 2\<rparr>)
                  else if i = 3 \<or> i = 4 \<or> i = 5 then Some (demo_other ''up'' [])
                  else None),
      next_id = 6, pwd = 1, hip_path = ''/proj/shot_v003.hip'', log = []\<rparr>"

definition demo_cached_state :: hou_state where
  \<comment> \<open>The same session after a refresh: \<open>beauty\<close> holds its output path and the scene path.\<close>
  "demo_cached_state =
     demo_state\<lparr>nodes := (nodes demo_state)(1 \<mapsto>
       demo_tk_node\<lparr>parms := set_raw ''sgtk_hip_path'' (StrV ''/proj/shot_v003.hip'')
                               (set_raw ''sgtk_ar_filename'' (StrV ''C:/renders/beauty.exr'')
                                 (parms demo_tk_node))\<rparr>)\<rparr>"



section \<open>Notions used in the statements\<close>

definition preserves :: "(hou_state \<Rightarrow> bool) \<Rightarrow> 'a hou \<Rightarrow> bool" where
  \<comment> \<open>An operation keeps a property of the session, whether it returns or raises.\<close>
  "preserves I m = (\<forall>s. I s \<longrightarrow> I (snd (m s)))"

definition parm_at :: "hou_state \<Rightarrow> node_id \<Rightarrow> string \<Rightarrow> parm option" where
  "parm_at s nid nm = (case nodes s nid of None \<Rightarrow> None | Some n \<Rightarrow> map_of (parms n) nm)"

definition not_managed :: "handler \<Rightarrow> string \<Rightarrow> bool" where
  \<comment> \<open>The work-file template is missing, rejects the scene file or extracts no field.\<close>
  "not_managed self path =
     (case work_file_template self of
        None \<Rightarrow> True
      | Some t \<Rightarrow> \<not> validate t path \<or> get_fields t path = [])"

definition copied_inputs ::
  "(nat \<times> node_id \<times> nat) list \<Rightarrow> (node_id \<times> nat) option list \<Rightarrow> (node_id \<times> nat) option list" where
  "copied_inputs conns ins = fold (\<lambda>c. set_slot (fst c) (Some (fst (snd c), 0))) conns ins"

definition rewire_slot :: "node_id \<Rightarrow> node_id \<times> nat \<Rightarrow> (node_id \<Rightarrow> node option) \<Rightarrow> (node_id \<Rightarrow> node option)" where
  "rewire_slot tgt c f =
     (case f (fst c) of
        None \<Rightarrow> f
      | Some n \<Rightarrow> f(fst c \<mapsto> n\<lparr>inputs := set_slot (snd c) (Some (tgt, 0)) (inputs n)\<rparr>))"

definition rewired :: "node_id \<Rightarrow> (node_id \<times> nat) list \<Rightarrow> node_id \<Rightarrow> node \<Rightarrow> node" where
  "rewired tgt L d n =
     n\<lparr>inputs := map (\<lambda>j. if (d, j) \<in> set L then Some (tgt, 0) else inputs n ! j)
                       [0..<length (inputs n)]\<rparr>"

definition menu_items :: "string \<Rightarrow> string list" where
  \<comment> \<open>The menu the callback builds around an output path.\<close>
  "menu_items path =
     [''sgtk'', path, ''ip'', ''mplay (interactive)'', ''md'', ''mplay (non-interactive)'']"

definition core :: "node \<Rightarrow> node" where
  \<comment> \<open>A node without its input slots.\<close>
  "core n = n\<lparr>inputs := []\<rparr>"

definition kept :: "node_id \<Rightarrow> node \<Rightarrow> hou_state \<Rightarrow> bool" where
  \<comment> \<open>The node is in the session, unchanged up to its input slots.\<close>
  "kept nid n s = (nid < next_id s \<and> (\<exists>n'. nodes s nid = Some n' \<and> core n' = core n))"

section \<open>Properties of the handler\<close>

subsection \<open>Sequencing\<close>

lemma bnd_ret [simp]: "bnd (ret x) f = f x"
  by (simp add: bnd_def ret_def)

lemma bnd_raise [simp]: "bnd (raise e) f = raise e"
  by (simp add: bnd_def raise_def)

lemmas prim_defs = bnd_def ret_def raise_def catch_def get_node_def modify_node_def
  the_parm_def node_parm_def parm_eval_def parm_set_def parm_lock_def parm_unexpandedString_def
  parm_menuLabels_def parm_keyframes_def node_name_def

lemma map_of_update_parm:
  "map_of (parms (update_parm nm f n)) nm' =
     (if nm' = nm then map_option f (map_of (parms n) nm) else map_of (parms n) nm')"
proof -
  have "map_of (map (\<lambda>kp. if fst kp = nm then (fst kp, f (snd kp)) else kp) ps) nm' =
     (if nm' = nm then map_option f (map_of ps nm) else map_of ps nm')" for ps
    by (induction ps) auto
  then show ?thesis by (simp add: update_parm_def)
qed

lemma update_parm_fields [simp]:
  "ntype (update_parm nm f n) = ntype n" "nname (update_parm nm f n) = nname n"
  "nparent (update_parm nm f n) = nparent n" "npos (update_parm nm f n) = npos n"
  "user_data (update_parm nm f n) = user_data n" "inputs (update_parm nm f n) = inputs n"
  "connectors (update_parm nm f n) = connectors n"
  by (simp_all add: update_parm_def)

subsection \<open>Invariants\<close>

lemma preservesI: "(\<And>s. I s \<Longrightarrow> I (snd (m s))) \<Longrightarrow> preserves I m"
  by (simp add: preserves_def)

lemma preservesD: "preserves I m \<Longrightarrow> I s \<Longrightarrow> m s = (r, s') \<Longrightarrow> I s'"
  by (auto simp: preserves_def)

lemma preserves_ret [simp]: "preserves I (ret x)"
  by (simp add: preserves_def ret_def)

lemma preserves_raise [simp]: "preserves I (raise e)"
  by (simp add: preserves_def raise_def)

lemma preserves_bnd: "preserves I m \<Longrightarrow> (\<And>x. preserves I (f x)) \<Longrightarrow> preserves I (bnd m f)"
  by (auto simp: preserves_def bnd_def split: prod.splits sum.splits)

lemma preserves_catch: "preserves I m \<Longrightarrow> (\<And>e. preserves I (h e)) \<Longrightarrow> preserves I (catch m h)"
  by (auto simp: preserves_def catch_def split: prod.splits sum.splits)

lemma preserves_foreach: "(\<And>x. x \<in> set xs \<Longrightarrow> preserves I (f x)) \<Longrightarrow> preserves I (foreach xs f)"
  by (induction xs) (auto intro: preserves_bnd)

lemma preserves_if: "(c \<Longrightarrow> preserves I a) \<Longrightarrow> (\<not> c \<Longrightarrow> preserves I b) \<Longrightarrow> preserves I (if c then a else b)"
  by simp

lemma preserves_reads: "(\<And>s. snd (m s) = s) \<Longrightarrow> preserves I m"
  by (simp add: preserves_def)

lemma preserves_case_option:
  "preserves I a \<Longrightarrow> (\<And>x. preserves I (f x)) \<Longrightarrow> preserves I (case v of None \<Rightarrow> a | Some x \<Rightarrow> f x)"
  by (cases v) auto

lemma preserves_case_pval:
  "(\<And>i. preserves I (f i)) \<Longrightarrow> (\<And>s. preserves I (g s)) \<Longrightarrow> preserves I (case v of IntV i \<Rightarrow> f i | StrV s \<Rightarrow> g s)"
  by (cases v) auto

lemma preserves_case_sum:
  "(\<And>e. preserves I (f e)) \<Longrightarrow> (\<And>x. preserves I (g x)) \<Longrightarrow> preserves I (case v of Inl e \<Rightarrow> f e | Inr x \<Rightarrow> g x)"
  by (cases v) auto

lemma preserves_let: "preserves I (f v) \<Longrightarrow> preserves I (let x = v in f x)"
  by simp

text \<open>Operations that only read the session.\<close>

lemma get_node_reads [simp]: "snd (get_node nid s) = s"
  by (simp add: get_node_def split: option.splits)

lemma node_parm_reads [simp]: "snd (node_parm nid nm s) = s"
  by (simp add: node_parm_def bnd_def get_node_def ret_def split: option.splits)

lemma the_parm_reads [simp]: "snd (the_parm nid nm s) = s"
  by (simp add: prim_defs split: option.splits)

lemma parm_eval_reads [simp]: "snd (parm_eval env nid nm s) = s"
  by (simp add: prim_defs split: option.splits)

lemma parm_unexpandedString_reads [simp]: "snd (parm_unexpandedString nid nm s) = s"
  by (simp add: prim_defs split: option.splits pval.splits)

lemma parm_menuLabels_reads [simp]: "snd (parm_menuLabels nid nm s) = s"
  by (simp add: prim_defs split: option.splits)

lemma parm_keyframes_reads [simp]: "snd (parm_keyframes nid nm s) = s"
  by (simp add: prim_defs split: option.splits)

lemma node_name_reads [simp]: "snd (node_name nid s) = s"
  by (simp add: prim_defs split: option.splits)

lemma node_parms_reads [simp]: "snd (node_parms nid s) = s"
  by (simp add: node_parms_def prim_defs split: option.splits)

lemma menu_label_at_reads [simp]: "snd (menu_label_at labels v s) = s"
  by (simp add: menu_label_at_def raise_def ret_def split: pval.splits sum.splits)

lemma dict_item_reads [simp]: "snd (dict_item d k s) = s"
  by (simp add: dict_item_def raise_def ret_def split: option.splits)

lemma get_extra_plane_numbers_reads [simp]: "snd (get_extra_plane_numbers env nid s) = s"
  by (simp add: get_extra_plane_numbers_def prim_defs split: option.splits pval.splits)

lemma get_hipfile_fields_reads [simp]: "snd (get_hipfile_fields self s) = s"
  by (simp add: get_hipfile_fields_def bnd_def hipFile_path_def ret_def split: option.splits)

lemma get_output_profile_reads [simp]: "snd (get_output_profile env self node s) = s"
  by (cases node)
     (simp_all add: get_output_profile_def prim_defs hou_pwd_def menu_label_at_def dict_item_def
        split: option.splits pval.splits sum.splits)

lemma compute_output_path_reads [simp]:
  "snd (compute_output_path env self node template_name aov_name s) = s"
proof -
  obtain r where g: "get_hipfile_fields self s = (r, s)"
    using get_hipfile_fields_reads [of self s] by (cases "get_hipfile_fields self s") simp
  obtain r2 where p: "get_output_profile env self (Some node) s = (r2, s)"
    using get_output_profile_reads [of env self "Some node" s]
    by (cases "get_output_profile env self (Some node) s") simp
  show ?thesis
    using g p
    by (simp add: compute_output_path_def bnd_def raise_def ret_def dict_item_def node_name_def
          get_node_def Let_def
        split: sum.splits option.splits)
qed


subsection \<open>Writes to parameters\<close>

lemma parm_lock_run:
  "nodes s nid = Some n \<Longrightarrow> map_of (parms n) nm = Some p \<Longrightarrow>
   parm_lock nid nm b s = (Inr (), s\<lparr>nodes := (nodes s)(nid \<mapsto> update_parm nm (\<lambda>q. q\<lparr>locked := b\<rparr>) n)\<rparr>)"
  by (simp add: prim_defs)

lemma parm_set_run:
  "nodes s nid = Some n \<Longrightarrow> map_of (parms n) nm = Some p \<Longrightarrow> \<not> locked p \<Longrightarrow>
   parm_accepts (ptemplate p) v \<Longrightarrow>
   parm_set nid nm v s = (Inr (), s\<lparr>nodes := (nodes s)(nid \<mapsto> update_parm nm (\<lambda>q. q\<lparr>raw := v\<rparr>) n)\<rparr>)"
  by (simp add: prim_defs)

lemma preserves_parm_set_other:
  "nm \<noteq> X \<or> nid' \<noteq> nid \<Longrightarrow> preserves (\<lambda>s. P (parm_at s nid X)) (parm_set nid' nm v)"
  by (auto simp: preserves_def prim_defs parm_at_def map_of_update_parm split: option.splits)

lemma preserves_parm_lock_raw:
  "preserves (\<lambda>s. P (map_option raw (parm_at s nid X))) (parm_lock nid' nm b)"
  by (auto simp: preserves_def prim_defs parm_at_def map_of_update_parm option.map_comp comp_def
      split: option.splits)

lemma preserves_log_warning_nodes: "preserves (\<lambda>s. P (nodes s)) (log_warning msg)"
  by (simp add: preserves_def log_warning_def)

lemma preserves_log_debug_nodes: "preserves (\<lambda>s. P (nodes s)) (log_debug msg)"
  by (simp add: preserves_def log_debug_def)

lemma preserves_log_warning_parm: "preserves (\<lambda>s. P (parm_at s nid X)) (log_warning msg)"
  by (simp add: preserves_def log_warning_def parm_at_def)

lemma preserves_compute_and_set_other:
  assumes "parm_name \<noteq> X"
  shows "preserves (\<lambda>s. P (map_option raw (parm_at s nid X)))
           (compute_and_set env self node parm_name template_name aov_name)"
  unfolding compute_and_set_def
proof (intro preserves_bnd preserves_catch)
  show "preserves (\<lambda>s. P (map_option raw (parm_at s nid X)))
          (compute_output_path env self node template_name aov_name)"
    by (rule preserves_reads) simp
next
  fix e
  show "preserves (\<lambda>s. P (map_option raw (parm_at s nid X)))
          (case e of
             TankError msg \<Rightarrow>
               bnd (node_name node) (\<lambda>nm. bnd (log_warning (nm @ '': '' @ msg)) (\<lambda>_. ret (''ERROR: '' @ msg)))
           | _ \<Rightarrow> raise e)"
  proof (cases e)
    case (TankError msg)
    have "preserves (\<lambda>s. P (map_option raw (parm_at s nid X)))
            (bnd (node_name node) (\<lambda>nm. bnd (log_warning (nm @ '': '' @ msg)) (\<lambda>_. ret (''ERROR: '' @ msg))))"
      by (intro preserves_bnd preserves_ret
            preserves_log_warning_parm [where P = "\<lambda>x. P (map_option raw x)"])
         (rule preserves_reads, simp)
    with TankError show ?thesis by simp
  qed simp_all
next
  fix x
  show "preserves (\<lambda>s. P (map_option raw (parm_at s nid X))) (parm_lock node parm_name False)"
    by (rule preserves_parm_lock_raw)
  show "preserves (\<lambda>s. P (map_option raw (parm_at s nid X))) (parm_set node parm_name (StrV x))"
    using assms by (intro preserves_parm_set_other [where P = "\<lambda>x. P (map_option raw x)"]) simp
  show "preserves (\<lambda>s. P (map_option raw (parm_at s nid X))) (parm_lock node parm_name True)"
    by (rule preserves_parm_lock_raw)
qed

lemma compute_and_set_run:
  assumes fail: "fst (compute_output_path env self node template_name aov_name s) = Inl (TankError msg)"
    and n: "nodes s node = Some n" "map_of (parms n) parm_name = Some p"
           "ptemplate p = StringParmTemplate"
  shows "compute_and_set env self node parm_name template_name aov_name s =
           (Inr (),
            s\<lparr>log := log s @ [(Warning, nname n @ '': '' @ msg)],
              nodes := (nodes s)(node \<mapsto>
                 update_parm parm_name (\<lambda>q. q\<lparr>locked := True\<rparr>)
                   (update_parm parm_name (\<lambda>q. q\<lparr>raw := StrV (''ERROR: '' @ msg)\<rparr>)
                     (update_parm parm_name (\<lambda>q. q\<lparr>locked := False\<rparr>) n)))\<rparr>)"
proof -
  have c: "compute_output_path env self node template_name aov_name s = (Inl (TankError msg), s)"
    using fail compute_output_path_reads [of env self node template_name aov_name s]
    by (cases "compute_output_path env self node template_name aov_name s") simp
  show ?thesis
    using c n
    by (simp add: compute_and_set_def bnd_def catch_def node_name_def get_node_def ret_def
          log_warning_def parm_lock_def parm_set_def the_parm_def node_parm_def modify_node_def
          map_of_update_parm parm_accepts_def)
qed

lemma bnd_Inl_cases:
  assumes "bnd m f s = (Inl e, s')"
  obtains "m s = (Inl e, s')" | x s1 where "m s = (Inr x, s1)" "f x s1 = (Inl e, s')"
  using assms by (auto simp: bnd_def split: prod.splits sum.splits)

lemma bnd_Inr_cases:
  assumes "bnd m f s = (Inr y, s')"
  obtains x s1 where "m s = (Inr x, s1)" "f x s1 = (Inr y, s')"
  using assms by (auto simp: bnd_def split: prod.splits sum.splits)

lemma parm_lock_never_tank: "parm_lock nid nm b s \<noteq> (Inl (TankError m), s')"
  by (auto simp: prim_defs split: option.splits)

lemma parm_set_never_tank: "parm_set nid nm v s \<noteq> (Inl (TankError m), s')"
  by (auto simp: prim_defs split: option.splits)

lemma compute_and_set_never_tank:
  "compute_and_set env self node parm_name template_name aov_name s \<noteq> (Inl (TankError m), s')"
proof
  assume a: "compute_and_set env self node parm_name template_name aov_name s = (Inl (TankError m), s')"
  then show False
    unfolding compute_and_set_def
  proof (cases rule: bnd_Inl_cases)
    case 1
    then show False
      by (auto simp: catch_def bnd_def node_name_def get_node_def ret_def raise_def log_warning_def
          split: sum.splits prod.splits error.splits option.splits)
  next
    case (2 x s1)
    from 2(2) show False
      by (auto elim!: bnd_Inl_cases simp: parm_lock_never_tank parm_set_never_tank)
  qed
qed


lemma bnd_elim:
  assumes "bnd m f s = (r, s')"
  obtains e where "m s = (Inl e, s')" "r = Inl e"
        | x s1 where "m s = (Inr x, s1)" "f x s1 = (r, s')"
  using assms by (auto simp: bnd_def split: prod.splits sum.splits)

lemma preserves_readers:
  "preserves I (get_node nid)" "preserves I (node_parm nid nm)" "preserves I (the_parm nid nm)"
  "preserves I (parm_eval env nid nm)" "preserves I (parm_unexpandedString nid nm)"
  "preserves I (parm_menuLabels nid nm)" "preserves I (parm_keyframes nid nm)"
  "preserves I (node_name nid)" "preserves I (node_parms nid)"
  "preserves I (menu_label_at labels v)" "preserves I (get_extra_plane_numbers env nid)"
  "preserves I (compute_output_path env self nid template_name aov_name)"
  by (rule preserves_reads, simp)+

lemma preserves_copy_parm_other:
  "p2 \<noteq> X \<Longrightarrow> preserves (\<lambda>s. P (parm_at s nid X)) (copy_parm node p1 p2)"
  unfolding copy_parm_def
  by (intro preserves_bnd preserves_parm_set_other disjI1 preserves_readers)

lemma preserves_update_parms_other:
  assumes "X \<noteq> ''ar_ass_file''" "X \<noteq> ''ar_picture''" "\<And>k. X \<noteq> ''ar_aov_separate_file'' @ str_int k"
  shows "preserves (\<lambda>s. P (parm_at s nid X)) (update_parms env (Some node))"
  unfolding update_parms_def TK_DEFAULT_UPDATE_PARM_MAPPING_def
  using assms
  by (auto intro!: preserves_bnd preserves_foreach preserves_copy_parm_other preserves_readers
        simp: Let_def)

lemma str_replace_hash:
  "str_replace_char CHR ''#'' r ''sgtk_ar_aov_separate_file#'' = ''sgtk_ar_aov_separate_file'' @ r"
  by (simp add: str_replace_char_def)

lemma node_name_run: "nodes s nid = Some n \<Longrightarrow> node_name nid s = (Inr (nname n), s)"
  by (simp add: node_name_def get_node_def bnd_def ret_def)

lemma reset_render_path_keeps_raw:
  assumes X: "X = ''sgtk_ass_diskfile'' \<or> X = ''sgtk_ar_filename''"
    and run: "reset_render_path env self (Some nid) s = (r, s')"
    and nm: "nodes s nid = Some n" "\<not> startswith (nname n) ''original0''"
    and loop: "foreach TK_RENDER_TEMPLATE_MAPPING
                 (\<lambda>item. compute_and_set env self nid (fst item) (snd item) None) s = (Inr (), s2)"
    and I: "P (map_option raw (parm_at s2 nid X))"
  shows "P (map_option raw (parm_at s' nid X))"
  using run unfolding reset_render_path_def
  apply simp
  apply (erule bnd_elim; simp add: node_name_run [OF nm(1)] nm(2))
  apply (erule bnd_elim; simp add: loop)
  apply (erule preservesD [rotated -1, where I = "\<lambda>s. P (map_option raw (parm_at s nid X))"])
   prefer 2 apply (rule I)
  apply (unfold TK_EXTRA_PLANE_TEMPLATE_MAPPING_def Let_def)
  apply (intro preserves_bnd preserves_foreach preserves_if preserves_ret preserves_readers
               preserves_compute_and_set_other
               preserves_parm_set_other [where P = "\<lambda>x. P (map_option raw x)"]
               preserves_update_parms_other [where P = "\<lambda>x. P (map_option raw x)"])
  using X
  apply (auto simp: str_replace_hash)
  done

lemma bnd_run: "m s = (Inr x, s1) \<Longrightarrow> bnd m f s = f x s1"
  by (simp add: bnd_def)

lemma compute_output_path_unparsed:
  assumes "not_managed self (hip_path s)"
  shows "compute_output_path env self node template_name aov_name s = (Inl (TankError not_a_work_file), s)"
proof -
  from assms have "get_hipfile_fields self s = (Inr [], s)"
    by (auto simp: not_managed_def get_hipfile_fields_def bnd_def hipFile_path_def ret_def
          split: option.splits)
  then show ?thesis
    by (simp add: compute_output_path_def bnd_def raise_def)
qed

lemma render_template_loop_unparsed:
  assumes unparsed: "not_managed self (hip_path s)"
    and n: "nodes s nid = Some n"
    and p1: "map_of (parms n) ''sgtk_ass_diskfile'' = Some p1" "ptemplate p1 = StringParmTemplate"
    and p2: "map_of (parms n) ''sgtk_ar_filename'' = Some p2" "ptemplate p2 = StringParmTemplate"
  shows "\<exists>s2. foreach TK_RENDER_TEMPLATE_MAPPING
                 (\<lambda>item. compute_and_set env self nid (fst item) (snd item) None) s = (Inr (), s2)
          \<and> map_option raw (parm_at s2 nid ''sgtk_ass_diskfile'') = Some (StrV (''ERROR: '' @ not_a_work_file))
          \<and> map_option raw (parm_at s2 nid ''sgtk_ar_filename'') = Some (StrV (''ERROR: '' @ not_a_work_file))"
proof -
  let ?err = "StrV (''ERROR: '' @ not_a_work_file)"
  let ?upd = "\<lambda>nm n. update_parm nm (\<lambda>q. q\<lparr>locked := True\<rparr>)
                   (update_parm nm (\<lambda>q. q\<lparr>raw := ?err\<rparr>)
                     (update_parm nm (\<lambda>q. q\<lparr>locked := False\<rparr>) n))"
  let ?n1 = "?upd ''sgtk_ass_diskfile'' n"
  let ?s1 = "s\<lparr>log := log s @ [(Warning, nname n @ '': '' @ not_a_work_file)],
              nodes := (nodes s)(nid \<mapsto> ?n1)\<rparr>"
  let ?n2 = "?upd ''sgtk_ar_filename'' ?n1"
  let ?s2 = "?s1\<lparr>log := log ?s1 @ [(Warning, nname ?n1 @ '': '' @ not_a_work_file)],
              nodes := (nodes ?s1)(nid \<mapsto> ?n2)\<rparr>"
  have f1: "fst (compute_output_path env self nid ''output_ifd_template'' None s) = Inl (TankError not_a_work_file)"
    using compute_output_path_unparsed [OF unparsed] by simp
  have r1: "compute_and_set env self nid ''sgtk_ass_diskfile'' ''output_ifd_template'' None s = (Inr (), ?s1)"
    by (rule compute_and_set_run [OF f1 n p1])
  have unparsed1: "not_managed self (hip_path ?s1)"
    using unparsed by simp
  have f2: "fst (compute_output_path env self nid ''output_render_template'' None ?s1) = Inl (TankError not_a_work_file)"
    using compute_output_path_unparsed [OF unparsed1] by simp
  have n1: "nodes ?s1 nid = Some ?n1" by simp
  have p2': "map_of (parms ?n1) ''sgtk_ar_filename'' = Some p2"
    using p2 by (simp add: map_of_update_parm)
  have r2: "compute_and_set env self nid ''sgtk_ar_filename'' ''output_render_template'' None ?s1 = (Inr (), ?s2)"
    by (rule compute_and_set_run [OF f2 n1 p2' p2(2)])
  have loop: "foreach TK_RENDER_TEMPLATE_MAPPING
                 (\<lambda>item. compute_and_set env self nid (fst item) (snd item) None) s = (Inr (), ?s2)"
    using r1 r2 by (simp add: TK_RENDER_TEMPLATE_MAPPING_def bnd_def ret_def)
  have v1: "map_option raw (parm_at ?s2 nid ''sgtk_ass_diskfile'') = Some ?err"
    using p1 by (simp add: parm_at_def map_of_update_parm)
  have v2: "map_option raw (parm_at ?s2 nid ''sgtk_ar_filename'') = Some ?err"
    using p2 by (simp add: parm_at_def map_of_update_parm)
  from loop v1 v2 show ?thesis by blast
qed

subsection \<open>What an operation leaves alone\<close>

text \<open>
  Three frames are used below: a node other than the one an operation works on is
  not touched at all; the scene path and the current node of the session are never
  written; and a node survives an operation on other nodes up to its input slots,
  which a conversion of an upstream node rewires.
\<close>

lemma preserves_readers2:
  "preserves I (userDataDict nid)" "preserves I (node_parent nid)" "preserves I (node_position nid)"
  "preserves I (inputConnections nid)" "preserves I (inputConnectors nid)"
  "preserves I (outputConnections nid)" "preserves I (node_str nid)"
  "preserves I (instances env ty)" "preserves I (value_map_at v)" "preserves I hou_pwd"
  "preserves I hipFile_path" "preserves I (parm_path_arg a)"
  by (rule preserves_reads;
      simp add: userDataDict_def node_parent_def node_position_def inputConnections_def
        inputConnectors_def outputConnections_def node_str_def instances_def value_map_at_def
        hou_pwd_def hipFile_path_def parm_path_arg_def
        prim_defs split: option.splits pval.splits sum.splits pyobj.splits)+

lemma preserves_node_modify:
  "j \<noteq> nid \<Longrightarrow> preserves (\<lambda>s. P (nodes s nid)) (modify_node j f)"
  by (auto simp: preserves_def modify_node_def split: option.splits)

lemma preserves_node_parm_set:
  "j \<noteq> nid \<Longrightarrow> preserves (\<lambda>s. P (nodes s nid)) (parm_set j nm v)"
  unfolding parm_set_def
  by (intro preserves_bnd preserves_readers preserves_if preserves_raise preserves_node_modify)

lemma preserves_node_parm_lock:
  "j \<noteq> nid \<Longrightarrow> preserves (\<lambda>s. P (nodes s nid)) (parm_lock j nm b)"
  unfolding parm_lock_def
  by (intro preserves_bnd preserves_readers preserves_node_modify)

lemma preserves_node_log:
  "preserves (\<lambda>s. P (nodes s nid)) (log_warning msg)" "preserves (\<lambda>s. P (nodes s nid)) (log_debug msg)"
  by (simp_all add: preserves_def log_warning_def log_debug_def)

lemma preserves_node_compute_and_set:
  assumes "j \<noteq> nid"
  shows "preserves (\<lambda>s. P (nodes s nid)) (compute_and_set env self j parm_name template_name aov_name)"
  unfolding compute_and_set_def
proof (intro preserves_bnd preserves_catch preserves_readers preserves_node_parm_lock
         preserves_node_parm_set assms)
  fix e
  show "preserves (\<lambda>s. P (nodes s nid))
          (case e of
             TankError msg \<Rightarrow>
               bnd (node_name j) (\<lambda>nm. bnd (log_warning (nm @ '': '' @ msg)) (\<lambda>_. ret (''ERROR: '' @ msg)))
           | _ \<Rightarrow> raise e)"
    by (cases e) (auto intro!: preserves_bnd preserves_readers preserves_node_log)
qed

lemma preserves_node_copy_parm:
  "j \<noteq> nid \<Longrightarrow> preserves (\<lambda>s. P (nodes s nid)) (copy_parm j p1 p2)"
  unfolding copy_parm_def
  by (intro preserves_bnd preserves_readers preserves_node_parm_set)

lemma preserves_node_update_parms:
  "j \<noteq> nid \<Longrightarrow> preserves (\<lambda>s. P (nodes s nid)) (update_parms env (Some j))"
  unfolding update_parms_def Let_def
  by (simp, intro preserves_bnd preserves_foreach preserves_readers preserves_node_copy_parm)

lemma preserves_node_reset_render_path:
  "j \<noteq> nid \<Longrightarrow> preserves (\<lambda>s. P (nodes s nid)) (reset_render_path env self (Some j))"
  unfolding reset_render_path_def Let_def
  by (simp, intro preserves_bnd preserves_foreach preserves_if preserves_ret preserves_readers
        preserves_node_compute_and_set preserves_node_parm_set preserves_node_update_parms)

lemma bnd_assoc: "bnd (bnd m f) g = bnd m (\<lambda>x. bnd (f x) g)"
  by (auto simp: bnd_def fun_eq_iff split: prod.splits sum.splits)

lemma hou_pwd_run: "bnd hou_pwd f s = f (pwd s) s"
  by (simp add: bnd_def hou_pwd_def)

lemma hipFile_path_run: "bnd hipFile_path f s = f (hip_path s) s"
  by (simp add: bnd_def hipFile_path_def)

lemma preserves_session_modify:
  "preserves (\<lambda>s. P (hip_path s) (pwd s)) (modify_node j f)"
  by (auto simp: preserves_def modify_node_def split: option.splits)

lemma preserves_session_parm_set:
  "preserves (\<lambda>s. P (hip_path s) (pwd s)) (parm_set j nm v)"
  unfolding parm_set_def
  by (intro preserves_bnd preserves_readers preserves_if preserves_raise preserves_session_modify)

lemma preserves_session_parm_lock:
  "preserves (\<lambda>s. P (hip_path s) (pwd s)) (parm_lock j nm b)"
  unfolding parm_lock_def
  by (intro preserves_bnd preserves_readers preserves_session_modify)

lemma preserves_session_log:
  "preserves (\<lambda>s. P (hip_path s) (pwd s)) (log_warning msg)"
  "preserves (\<lambda>s. P (hip_path s) (pwd s)) (log_debug msg)"
  by (simp_all add: preserves_def log_warning_def log_debug_def)

lemma preserves_session_compute_and_set:
  "preserves (\<lambda>s. P (hip_path s) (pwd s)) (compute_and_set env self j parm_name template_name aov_name)"
  unfolding compute_and_set_def
proof (intro preserves_bnd preserves_catch preserves_readers preserves_session_parm_lock
         preserves_session_parm_set)
  fix e
  show "preserves (\<lambda>s. P (hip_path s) (pwd s))
          (case e of
             TankError msg \<Rightarrow>
               bnd (node_name j) (\<lambda>nm. bnd (log_warning (nm @ '': '' @ msg)) (\<lambda>_. ret (''ERROR: '' @ msg)))
           | _ \<Rightarrow> raise e)"
    by (cases e) (auto intro!: preserves_bnd preserves_readers preserves_session_log)
qed

lemma preserves_session_copy_parm:
  "preserves (\<lambda>s. P (hip_path s) (pwd s)) (copy_parm j p1 p2)"
  unfolding copy_parm_def
  by (intro preserves_bnd preserves_readers preserves_session_parm_set)

lemma preserves_session_update_parms:
  "preserves (\<lambda>s. P (hip_path s) (pwd s)) (update_parms env (Some j))"
  unfolding update_parms_def Let_def
  by (simp, intro preserves_bnd preserves_foreach preserves_readers preserves_session_copy_parm)

lemma preserves_session_reset_render_path:
  "preserves (\<lambda>s. P (hip_path s) (pwd s)) (reset_render_path env self (Some j))"
  unfolding reset_render_path_def Let_def
  by (simp, intro preserves_bnd preserves_foreach preserves_if preserves_ret preserves_readers
        preserves_session_compute_and_set preserves_session_parm_set preserves_session_update_parms)

lemma reset_render_path_session:
  assumes "reset_render_path env self (Some j) s = (r, s1)"
  shows "hip_path s1 = hip_path s \<and> pwd s1 = pwd s"
  using preservesD [OF preserves_session_reset_render_path
                      [where P = "\<lambda>h p. h = hip_path s \<and> p = pwd s"] _ assms]
  by simp


lemma core_inputs [simp]: "core (n\<lparr>inputs := xs\<rparr>) = core n"
  by (simp add: core_def)

lemma core_disconnect [simp]: "core (disconnect j n) = core n"
  by (simp add: disconnect_def)

lemma preserves_modify_kept:
  "j \<noteq> nid \<or> (\<forall>x. core (f x) = core x) \<Longrightarrow> preserves (kept nid n) (modify_node j f)"
  by (auto simp: preserves_def kept_def modify_node_def split: option.splits)

lemma preserves_kept_setInput: "preserves (kept nid n) (setInput j i item)"
  unfolding setInput_def by (rule preserves_modify_kept) simp

lemma preserves_kept_parm_set: "j \<noteq> nid \<Longrightarrow> preserves (kept nid n) (parm_set j nm v)"
  unfolding parm_set_def
  by (intro preserves_bnd preserves_readers preserves_if preserves_raise preserves_modify_kept) simp

lemma preserves_kept_parm_lock: "j \<noteq> nid \<Longrightarrow> preserves (kept nid n) (parm_lock j nm b)"
  unfolding parm_lock_def
  by (intro preserves_bnd preserves_readers preserves_modify_kept) simp

lemma preserves_kept_parm_setKeyframe:
  "j \<noteq> nid \<Longrightarrow> preserves (kept nid n) (parm_setKeyframe j nm k)"
  unfolding parm_setKeyframe_def
  by (intro preserves_bnd preserves_readers preserves_if preserves_raise preserves_modify_kept) simp

lemma preserves_kept_setUserData: "j \<noteq> nid \<Longrightarrow> preserves (kept nid n) (setUserData j k v)"
  unfolding setUserData_def
  by (cases v) (auto intro!: preserves_modify_kept)

lemma preserves_kept_setPosition: "j \<noteq> nid \<Longrightarrow> preserves (kept nid n) (setPosition j p)"
  unfolding setPosition_def by (rule preserves_modify_kept) simp

lemma preserves_kept_setName: "j \<noteq> nid \<Longrightarrow> preserves (kept nid n) (setName j nm)"
  using preserves_modify_kept [of j nid "\<lambda>n. n\<lparr>nname := nm\<rparr>" n]
  by (auto simp: preserves_def setName_def)

lemma preserves_kept_log: "preserves (kept nid n) (log_debug msg)" "preserves (kept nid n) (log_warning msg)"
  by (simp_all add: preserves_def kept_def log_debug_def log_warning_def)

lemma preserves_kept_createNode: "preserves (kept nid n) (createNode env parent ty)"
  by (auto simp: preserves_def kept_def createNode_def split: option.splits)

lemma preserves_kept_bnd_createNode:
  assumes "\<And>x. x \<noteq> nid \<Longrightarrow> preserves (kept nid n) (f x)"
  shows "preserves (kept nid n) (bnd (createNode env parent ty) f)"
proof (rule preservesI)
  fix s assume k: "kept nid n s"
  show "kept nid n (snd (bnd (createNode env parent ty) f s))"
  proof (cases "type_parms env ty")
    case None
    with k show ?thesis by (simp add: bnd_def createNode_def)
  next
    case (Some ps)
    obtain s1 where c: "createNode env parent ty s = (Inr (next_id s), s1)"
      using Some by (simp add: createNode_def)
    have k1: "kept nid n s1"
      using preserves_kept_createNode [of nid n env parent ty] k c
      by (auto simp: preserves_def)
    have "next_id s \<noteq> nid" using k by (simp add: kept_def)
    from assms [OF this] k1 have "kept nid n (snd (f (next_id s) s1))"
      by (simp add: preserves_def)
    with c show ?thesis by (simp add: bnd_def)
  qed
qed

lemma preserves_kept_destroy: "j \<noteq> nid \<Longrightarrow> preserves (kept nid n) (destroy j)"
  by (auto simp: preserves_def kept_def destroy_def split: option.splits)

lemma preserves_kept_copy_inputs: "preserves (kept nid n) (copy_inputs a b)"
  unfolding copy_inputs_def
  by (intro preserves_bnd preserves_if preserves_foreach preserves_readers preserves_readers2
        preserves_raise preserves_kept_setInput)

lemma preserves_kept_move_outputs: "preserves (kept nid n) (move_outputs a b)"
  unfolding move_outputs_def
  by (intro preserves_bnd preserves_foreach preserves_readers2 preserves_kept_setInput)

lemma preserves_kept_copy_parm_value:
  "b \<noteq> nid \<Longrightarrow> preserves (kept nid n) (copy_parm_value env a b nm)"
  unfolding copy_parm_value_def
  by (intro preserves_bnd preserves_if preserves_foreach preserves_readers preserves_readers2
        preserves_raise preserves_ret preserves_catch preserves_case_option
        preserves_kept_parm_set preserves_kept_parm_setKeyframe)

lemma preserves_kept_copy_parm_values:
  "b \<noteq> nid \<Longrightarrow> preserves (kept nid n) (copy_parm_values env a b ex)"
  unfolding copy_parm_values_def Let_def
  by (intro preserves_bnd preserves_foreach preserves_readers preserves_kept_copy_parm_value)


lemma preserves_kept_convert_to:
  "m \<noteq> nid \<Longrightarrow> preserves (kept nid n) (convert_to_regular_arnold_node env m)"
  unfolding convert_to_regular_arnold_node_def Let_def
  by (intro preserves_kept_bnd_createNode preserves_bnd preserves_if preserves_foreach
        preserves_readers preserves_readers2 preserves_raise preserves_ret preserves_case_option
        preserves_kept_log preserves_kept_setUserData preserves_kept_copy_parm_values
        preserves_kept_copy_inputs preserves_kept_move_outputs preserves_kept_destroy
        preserves_kept_setName preserves_kept_setPosition)

subsection \<open>The menu callback on the current node\<close>

lemma get_output_path_menu_frame:
  assumes "pwd s \<noteq> nid"
  shows "nodes (snd (get_output_path_menu env self node s)) nid = nodes s nid"
proof -
  define j where "j = pwd s"
  have j: "j \<noteq> nid"
    using assms by (simp add: j_def)
  obtain r s' where run: "get_output_path_menu env self node s = (r, s')"
    by (cases "get_output_path_menu env self node s")
  from run have "nodes s' nid = nodes s nid"
    unfolding get_output_path_menu_def Let_def
    apply (simp add: py_truth_def bnd_assoc hou_pwd_run)
    apply (fold j_def)
    apply (erule preservesD [rotated -1, where I = "\<lambda>s'. nodes s' nid = nodes s nid"])
     prefer 2 apply simp
    apply (intro preserves_bnd preserves_if preserves_ret preserves_readers preserves_readers2
             preserves_node_parm_set preserves_node_reset_render_path j)
    done
  with run show ?thesis by simp
qed

lemma get_output_path_menu_cached:
  assumes "parm_at s (pwd s) TK_INIT_PARM_NAME = Some pi" "eval_parm env pi \<noteq> StrV ''True''"
    and "parm_at s (pwd s) TK_HIP_PATH_PARM_NAME = Some ph" "eval_parm env ph = StrV (hip_path s)"
  shows "get_output_path_menu env self node s =
           bnd (parm_unexpandedString (pwd s) NODE_OUTPUT_PATH_PARM) (\<lambda>path. ret (menu_items path)) s"
  using assms
  by (auto simp: get_output_path_menu_def py_truth_def hou_pwd_def hipFile_path_def menu_items_def
        parm_at_def parm_eval_def the_parm_def node_parm_def prim_defs split: option.splits)

lemma get_output_path_menu_changed:
  assumes "parm_at s (pwd s) TK_INIT_PARM_NAME = Some pi" "eval_parm env pi \<noteq> StrV ''True''"
    and "parm_at s (pwd s) TK_HIP_PATH_PARM_NAME = Some ph" "eval_parm env ph \<noteq> StrV (hip_path s)"
  shows "get_output_path_menu env self node s =
           bnd (reset_render_path env self (Some (pwd s))) (\<lambda>_.
           bnd (parm_set (pwd s) TK_HIP_PATH_PARM_NAME (StrV (hip_path s))) (\<lambda>_.
           bnd (parm_unexpandedString (pwd s) NODE_OUTPUT_PATH_PARM) (\<lambda>path. ret (menu_items path)))) s"
proof -
  have pe1: "parm_eval env (pwd s) TK_INIT_PARM_NAME s = (Inr (eval_parm env pi), s)"
    using assms(1)
    by (auto simp: parm_at_def parm_eval_def the_parm_def node_parm_def prim_defs split: option.splits)
  have pe2: "parm_eval env (pwd s) TK_HIP_PATH_PARM_NAME s = (Inr (eval_parm env ph), s)"
    using assms(3)
    by (auto simp: parm_at_def parm_eval_def the_parm_def node_parm_def prim_defs split: option.splits)
  have eq: "bnd (reset_render_path env self (Some (pwd s))) (\<lambda>_. bnd hipFile_path (\<lambda>hip. F hip)) s
          = bnd (reset_render_path env self (Some (pwd s))) (\<lambda>_. F (hip_path s)) s" for F :: "string \<Rightarrow> 'b hou"
  proof (cases "reset_render_path env self (Some (pwd s)) s")
    case (Pair r s1)
    from reset_render_path_session [OF Pair] have "hip_path s1 = hip_path s" by simp
    with Pair show ?thesis by (cases r) (simp_all add: bnd_def hipFile_path_def)
  qed
  show ?thesis
    unfolding get_output_path_menu_def Let_def
    using assms(2,4)
    by (simp add: py_truth_def bnd_assoc hou_pwd_run hipFile_path_run bnd_run [where m = "parm_eval env (pwd s) TK_INIT_PARM_NAME" and s = s, OF pe1]
          bnd_run [where m = "parm_eval env (pwd s) TK_HIP_PATH_PARM_NAME" and s = s, OF pe2] eq
          menu_items_def)
qed

lemma get_output_path_menu_returns:
  assumes "get_output_path_menu env self node s = (Inr menu, s')"
  shows "\<exists>p path. parm_at s' (pwd s) NODE_OUTPUT_PATH_PARM = Some p \<and> raw p = StrV path
                 \<and> menu = menu_items path"
  using assms
  unfolding get_output_path_menu_def Let_def
  apply (simp add: py_truth_def bnd_assoc hou_pwd_run)
  apply (elim bnd_Inr_cases)
  apply (auto simp: parm_unexpandedString_def the_parm_def node_parm_def prim_defs parm_at_def menu_items_def
              split: option.splits pval.splits)
  done

subsection \<open>A native node without a stashed profile\<close>



section \<open>The claims about single operations\<close>

subsection \<open>The menu callback and its node argument\<close>

text \<open>
  C10.  \<open>get_output_path_menu\<close> ignores its \<open>node\<close> argument: the guard \<open>if not None\<close>
  is always true, so whatever the caller passes, the operation re-binds \<open>node\<close> to the
  host's current node \<open>hou.pwd()\<close> and runs on that node, never on the one supplied:

    \<^item> the call is the call with the current node passed;
    \<^item> a supplied node that is not the current node is left exactly as it was;
    \<^item> when the flag of the current node does not read \<open>True\<close>, the call is, with the
      cached scene path of the current node up to date, the menu around the output
      path held by the current node, and otherwise \<open>reset_render_path\<close> of the current
      node, then the scene path cached on the current node, then that menu;
    \<^item> whenever the call returns, the path in the menu is the output path the current
      node holds afterwards.

  (The first run, where the flag reads \<open>True\<close>, is the subject of C2.)
\<close>

theorem get_output_path_menu_ignores_node:
  "\<not> py_truth PyNone
   \<and> get_output_path_menu env self node s = get_output_path_menu env self (Some (pwd s)) s
   \<and> (pwd s \<noteq> nid \<longrightarrow>
        nodes (snd (get_output_path_menu env self (Some nid) s)) nid = nodes s nid)
   \<and> (parm_at s (pwd s) TK_INIT_PARM_NAME = Some p_init \<and> eval_parm env p_init \<noteq> StrV ''True'' \<and>
      parm_at s (pwd s) TK_HIP_PATH_PARM_NAME = Some p_hip \<longrightarrow>
        get_output_path_menu env self node s =
          (if eval_parm env p_hip = StrV (hip_path s) then
             bnd (parm_unexpandedString (pwd s) NODE_OUTPUT_PATH_PARM) (\<lambda>path.
               ret (menu_items path)) s
           else
             bnd (reset_render_path env self (Some (pwd s))) (\<lambda>_.
             bnd (parm_set (pwd s) TK_HIP_PATH_PARM_NAME (StrV (hip_path s))) (\<lambda>_.
             bnd (parm_unexpandedString (pwd s) NODE_OUTPUT_PATH_PARM) (\<lambda>path.
               ret (menu_items path)))) s))
   \<and> (get_output_path_menu env self node s = (Inr menu, s') \<longrightarrow>
        (\<exists>p path. parm_at s' (pwd s) NODE_OUTPUT_PATH_PARM = Some p \<and> raw p = StrV path
                   \<and> menu = menu_items path))"
proof (intro conjI impI)
  show "\<not> py_truth PyNone"
    by (simp add: py_truth_def)
  show "get_output_path_menu env self node s = get_output_path_menu env self (Some (pwd s)) s"
    by (simp add: get_output_path_menu_def py_truth_def bnd_def hou_pwd_def ret_def)
  show "nodes (snd (get_output_path_menu env self (Some nid) s)) nid = nodes s nid"
    if "pwd s \<noteq> nid"
    using that by (rule get_output_path_menu_frame)
  show "\<exists>p path. parm_at s' (pwd s) NODE_OUTPUT_PATH_PARM = Some p \<and> raw p = StrV path
                  \<and> menu = menu_items path"
    if "get_output_path_menu env self node s = (Inr menu, s')"
    using that by (rule get_output_path_menu_returns)
next
  assume a: "parm_at s (pwd s) TK_INIT_PARM_NAME = Some p_init \<and> eval_parm env p_init \<noteq> StrV ''True'' \<and>
             parm_at s (pwd s) TK_HIP_PATH_PARM_NAME = Some p_hip"
  show "get_output_path_menu env self node s =
          (if eval_parm env p_hip = StrV (hip_path s) then
             bnd (parm_unexpandedString (pwd s) NODE_OUTPUT_PATH_PARM) (\<lambda>path.
               ret (menu_items path)) s
           else
             bnd (reset_render_path env self (Some (pwd s))) (\<lambda>_.
             bnd (parm_set (pwd s) TK_HIP_PATH_PARM_NAME (StrV (hip_path s))) (\<lambda>_.
             bnd (parm_unexpandedString (pwd s) NODE_OUTPUT_PATH_PARM) (\<lambda>path.
               ret (menu_items path)))) s)"
  proof (cases "eval_parm env p_hip = StrV (hip_path s)")
    case True
    with a get_output_path_menu_cached [of s p_init env p_hip self node] show ?thesis by simp
  next
    case False
    with a get_output_path_menu_changed [of s p_init env p_hip self node] show ?thesis by simp
  qed
qed

theorem get_output_path_menu_ignores_node_witness:
  "get_output_path_menu demo_env demo_handler (Some 3) demo_cached_state =
     (Inr [''sgtk'', ''C:/renders/beauty.exr'', ''ip'', ''mplay (interactive)'',
           ''md'', ''mplay (non-interactive)''], demo_cached_state)
   \<and> nodes (snd (get_output_path_menu demo_env demo_handler (Some 3) demo_state)) 3 = nodes demo_state 3
   \<and> get_output_path_menu demo_env demo_handler (Some 3) demo_state =
       get_output_path_menu demo_env demo_handler None demo_state"
proof -
  note inst = get_output_path_menu_ignores_node
                [where env = demo_env and self = demo_handler and node = "Some 3"]
  have pw: "pwd demo_cached_state = 1" "pwd demo_state = 1"
    by (simp_all add: demo_cached_state_def demo_state_def)
  have p_init: "parm_at demo_cached_state 1 TK_INIT_PARM_NAME =
                  Some (mk_parm StringParmTemplate (StrV ''False''))"
    by (simp add: parm_at_def demo_cached_state_def demo_tk_node_def demo_tk_parms_def
          set_raw_def mk_parm_def TK_INIT_PARM_NAME_def)
  have p_hip: "parm_at demo_cached_state 1 TK_HIP_PATH_PARM_NAME =
                 Some (mk_parm StringParmTemplate (StrV ''/proj/shot_v003.hip''))"
    by (simp add: parm_at_def demo_cached_state_def demo_tk_node_def demo_tk_parms_def
          set_raw_def mk_parm_def TK_HIP_PATH_PARM_NAME_def)
  have ev: "eval_parm demo_env (mk_parm StringParmTemplate (StrV ''False'')) \<noteq> StrV ''True''"
           "eval_parm demo_env (mk_parm StringParmTemplate (StrV ''/proj/shot_v003.hip''))
              = StrV (hip_path demo_cached_state)"
    by (simp_all add: eval_parm_def mk_parm_def demo_env_def demo_cached_state_def demo_state_def)
  have out: "bnd (parm_unexpandedString 1 NODE_OUTPUT_PATH_PARM) (\<lambda>path. ret (menu_items path))
               demo_cached_state =
             (Inr [''sgtk'', ''C:/renders/beauty.exr'', ''ip'', ''mplay (interactive)'',
                   ''md'', ''mplay (non-interactive)''], demo_cached_state)"
    by (simp add: parm_unexpandedString_def the_parm_def node_parm_def prim_defs menu_items_def
          demo_cached_state_def demo_tk_node_def demo_tk_parms_def set_raw_def mk_parm_def
          NODE_OUTPUT_PATH_PARM_def)
  have cached: "get_output_path_menu demo_env demo_handler (Some 3) demo_cached_state =
     (Inr [''sgtk'', ''C:/renders/beauty.exr'', ''ip'', ''mplay (interactive)'',
           ''md'', ''mplay (non-interactive)''], demo_cached_state)"
    using inst [where s = demo_cached_state
                  and p_init = "mk_parm StringParmTemplate (StrV ''False'')"
                  and p_hip = "mk_parm StringParmTemplate (StrV ''/proj/shot_v003.hip'')",
                THEN conjunct2, THEN conjunct2, THEN conjunct2, THEN conjunct1]
          pw p_init p_hip ev out
    by simp
  have frame: "nodes (snd (get_output_path_menu demo_env demo_handler (Some 3) demo_state)) 3 =
               nodes demo_state 3"
    using inst [where s = demo_state and nid = 3, THEN conjunct2, THEN conjunct2, THEN conjunct1] pw
    by simp
  have same: "get_output_path_menu demo_env demo_handler (Some 3) demo_state =
              get_output_path_menu demo_env demo_handler None demo_state"
    using inst [where s = demo_state, THEN conjunct2, THEN conjunct1]
          get_output_path_menu_ignores_node
            [where env = demo_env and self = demo_handler and node = None and s = demo_state,
             THEN conjunct2, THEN conjunct1]
    by simp
  from cached frame same show ?thesis by simp
qed

text \<open>
  C2.  The menu callback reads the flag \<open>sgtk_initialized\<close> and the cached scene path
  \<open>sgtk_hip_path\<close> to decide whether to recompute the render path.  On the first run
  (the flag reads \<open>True\<close>) it means to clear the flag, but it looks the parameter up
  with the boolean \<open>is_first_run\<close> instead of the parameter's name: the host rejects the
  argument, the callback raises, the flag is never cleared and nothing is recomputed.
\<close>

theorem get_output_path_menu_first_run:
  assumes "nodes s (pwd s) = Some n"
    and "map_of (parms n) TK_INIT_PARM_NAME = Some p"
    and "eval_parm env p = StrV ''True''"
  shows "get_output_path_menu env self node s = (Inl TypeError, s)"
  using assms
  by (simp add: get_output_path_menu_def py_truth_def hou_pwd_def parm_path_arg_def prim_defs)

theorem get_output_path_menu_first_run_witness:
  "get_output_path_menu demo_env demo_handler None demo_first_run_state
     = (Inl TypeError, demo_first_run_state)"
proof -
  have n: "nodes demo_first_run_state (pwd demo_first_run_state) =
             Some (demo_tk_node\<lparr>parms := set_raw ''sgtk_initialized'' (StrV ''True'') (parms demo_tk_node)\<rparr>)"
    by (simp add: demo_first_run_state_def demo_state_def)
  have p: "map_of (parms (demo_tk_node\<lparr>parms := set_raw ''sgtk_initialized'' (StrV ''True'') (parms demo_tk_node)\<rparr>))
             TK_INIT_PARM_NAME = Some (mk_parm StringParmTemplate (StrV ''True''))"
    by (simp add: demo_tk_node_def demo_tk_parms_def set_raw_def mk_parm_def TK_INIT_PARM_NAME_def)
  have e: "eval_parm demo_env (mk_parm StringParmTemplate (StrV ''True'')) = StrV ''True''"
    by (simp add: eval_parm_def mk_parm_def demo_env_def)
  show ?thesis
    by (rule get_output_path_menu_first_run [OF n p e])
qed

subsection \<open>Refreshing the render path of a node that is being duplicated\<close>

text \<open>
  C7.  When the name of the node starts with the prefix the host gives a node while it
  duplicates it (\<open>original0\<close>), \<open>reset_render_path\<close> returns at once: the session,
  and with it every parameter of the node, is unchanged.
\<close>

theorem reset_render_path_duplicating:
  assumes "(case node of None \<Rightarrow> pwd s | Some n \<Rightarrow> n) = nid"
    and "nodes s nid = Some n"
    and "startswith (nname n) ''original0''"
  shows "reset_render_path env self node s = (Inr (), s)"
  using assms
  by (cases node)
     (simp_all add: reset_render_path_def bnd_def hou_pwd_def ret_def node_name_def get_node_def)

theorem reset_render_path_duplicating_witness:
  "reset_render_path demo_env demo_handler (Some 1)
     (demo_state\<lparr>nodes := (nodes demo_state)(1 \<mapsto> demo_tk_node\<lparr>nname := ''original0_beauty''\<rparr>)\<rparr>)
   = (Inr (), demo_state\<lparr>nodes := (nodes demo_state)(1 \<mapsto> demo_tk_node\<lparr>nname := ''original0_beauty''\<rparr>)\<rparr>)"
  using reset_render_path_duplicating
    [where node = "Some 1" and nid = 1 and n = "demo_tk_node\<lparr>nname := ''original0_beauty''\<rparr>"
       and s = "demo_state\<lparr>nodes := (nodes demo_state)(1 \<mapsto> demo_tk_node\<lparr>nname := ''original0_beauty''\<rparr>)\<rparr>"
       and env = demo_env and self = demo_handler]
  by (simp add: startswith_def)

subsection \<open>Computing an output path\<close>

lemma str_replace_char_no_sep:
  "c \<noteq> CHR ''/'' \<Longrightarrow> c \<notin> set (str_replace_char c ''/'' path)"
  by (induction path) (auto simp: str_replace_char_def)

lemma get_hipfile_fields_parsed:
  assumes "get_hipfile_fields self s = (Inr fs, s')" and "fs \<noteq> []"
  shows "\<exists>t. work_file_template self = Some t \<and> validate t (hip_path s) \<and> fs = get_fields t (hip_path s)"
  using assms
  by (auto simp: get_hipfile_fields_def bnd_def hipFile_path_def ret_def split: option.splits if_splits)

lemma compute_output_path_returns:
  assumes ok: "compute_output_path env self node template_name aov_name s = (Inr path, s')"
  shows "(\<exists>t. work_file_template self = Some t \<and> validate t (hip_path s))
         \<and> (os_sep env \<in> set path \<longrightarrow> os_sep env = CHR ''/'')"
proof -
  obtain r where g: "get_hipfile_fields self s = (r, s)"
    using get_hipfile_fields_reads [of self s] by (cases "get_hipfile_fields self s") simp
  from ok g obtain fs where r: "r = Inr fs" and ne: "fs \<noteq> []"
    by (cases r) (auto simp: compute_output_path_def bnd_def raise_def split: if_splits)
  from get_hipfile_fields_parsed [OF g [unfolded r] ne]
  have t: "\<exists>t. work_file_template self = Some t \<and> validate t (hip_path s)" by blast
  from ok g r ne have "os_sep env \<in> set path \<longrightarrow> os_sep env = CHR ''/''"
    by (auto simp: compute_output_path_def bnd_def raise_def ret_def Let_def
        dest: str_replace_char_no_sep [THEN notE, rotated]
        split: if_splits option.splits sum.splits prod.splits)
  with t show ?thesis by blast
qed

text \<open>
  C3.  When the work-file template is missing, does not validate the scene file or
  extracts no field from it, \<open>_compute_output_path\<close> raises the TankError
  "This Houdini file is not a Shotgun Toolkit work file!" and returns no path.  Whenever
  it does return a path, the template validated the scene file, the session is unchanged,
  and the path holds no separator of the platform other than the forward slash.
\<close>

theorem compute_output_path_work_file:
  "(not_managed self (hip_path s) \<longrightarrow>
      compute_output_path env self node template_name aov_name s = (Inl (TankError not_a_work_file), s))
   \<and> (\<forall>path s'. compute_output_path env self node template_name aov_name s = (Inr path, s') \<longrightarrow>
        (\<exists>t. work_file_template self = Some t \<and> validate t (hip_path s))
        \<and> s' = s
        \<and> (os_sep env \<in> set path \<longrightarrow> os_sep env = CHR ''/''))"
proof (intro conjI impI allI)
  assume "not_managed self (hip_path s)"
  then show "compute_output_path env self node template_name aov_name s = (Inl (TankError not_a_work_file), s)"
    by (rule compute_output_path_unparsed)
next
  fix path s'
  assume ok: "compute_output_path env self node template_name aov_name s = (Inr path, s')"
  from compute_output_path_returns [OF ok]
  show "\<exists>t. work_file_template self = Some t \<and> validate t (hip_path s)"
    and "os_sep env \<in> set path \<Longrightarrow> os_sep env = CHR ''/''" by blast+
  from ok compute_output_path_reads [of env self node template_name aov_name s]
  show "s' = s" by simp
qed

theorem compute_output_path_work_file_witness:
  "fst (compute_output_path demo_env demo_handler 1 ''output_render_template'' None
          demo_unmanaged_state) = Inl (TankError not_a_work_file)
   \<and> fst (compute_output_path demo_env demo_handler 1 ''output_render_template'' None demo_state)
       = Inr ''C:/renders/beauty.exr''
   \<and> snd (compute_output_path demo_env demo_handler 1 ''output_render_template'' None demo_state)
       = demo_state
   \<and> os_sep demo_env \<notin> set ''C:/renders/beauty.exr''"
proof -
  have unparsed: "not_managed demo_handler (hip_path demo_unmanaged_state)"
    by (simp add: not_managed_def demo_handler_def demo_template_def demo_unmanaged_state_def
          demo_state_def)
  have run: "fst (compute_output_path demo_env demo_handler 1 ''output_render_template'' None demo_state)
       = Inr ''C:/renders/beauty.exr''"
    by code_simp
  have sep: "os_sep demo_env \<noteq> CHR ''/''"
    by (simp add: demo_env_def)
  obtain s' where run': "compute_output_path demo_env demo_handler 1 ''output_render_template'' None demo_state
       = (Inr ''C:/renders/beauty.exr'', s')"
    using run by (cases "compute_output_path demo_env demo_handler 1 ''output_render_template'' None demo_state") simp
  from compute_output_path_work_file
         [where self = demo_handler and s = demo_unmanaged_state
            and env = demo_env and node = 1 and template_name = "''output_render_template''"
            and aov_name = None]
       compute_output_path_work_file
         [where self = demo_handler and s = demo_state and env = demo_env and node = 1
            and template_name = "''output_render_template''" and aov_name = None]
       unparsed run' sep
  show ?thesis by auto
qed

subsection \<open>Writing a computed path, or the error placeholder\<close>

text \<open>
  C5.  When computing the path raises a TankError with message \<open>msg\<close>, and the node has
  the string parameter to write, \<open>_compute_and_set\<close> logs a warning, unlocks the
  parameter, writes \<open>"ERROR: " + msg\<close> into it, locks it again and returns normally.  It
  never hands a TankError to its caller.  \<open>reset_render_path\<close> goes on after such a
  failure: when the scene file is no managed work file, both parameters of the render
  template mapping hold the placeholder when the operation ends, however it ends.
\<close>

theorem compute_and_set_error_placeholder:
  "(\<forall>msg n p.
      fst (compute_output_path env self node template_name aov_name s) = Inl (TankError msg)
      \<and> nodes s node = Some n \<and> map_of (parms n) parm_name = Some p
      \<and> ptemplate p = StringParmTemplate \<longrightarrow>
      compute_and_set env self node parm_name template_name aov_name s =
        (Inr (),
         s\<lparr>log := log s @ [(Warning, nname n @ '': '' @ msg)],
           nodes := (nodes s)(node \<mapsto>
             update_parm parm_name (\<lambda>q. q\<lparr>locked := True\<rparr>)
               (update_parm parm_name (\<lambda>q. q\<lparr>raw := StrV (''ERROR: '' @ msg)\<rparr>)
                 (update_parm parm_name (\<lambda>q. q\<lparr>locked := False\<rparr>) n)))\<rparr>))
   \<and> (\<forall>msg s'. compute_and_set env self node parm_name template_name aov_name s
                  \<noteq> (Inl (TankError msg), s'))
   \<and> (\<forall>n p1 p2 r s'.
        not_managed self (hip_path s)
        \<and> nodes s node = Some n \<and> \<not> startswith (nname n) ''original0''
        \<and> map_of (parms n) ''sgtk_ass_diskfile'' = Some p1 \<and> ptemplate p1 = StringParmTemplate
        \<and> map_of (parms n) ''sgtk_ar_filename'' = Some p2 \<and> ptemplate p2 = StringParmTemplate
        \<and> reset_render_path env self (Some node) s = (r, s') \<longrightarrow>
        map_option raw (parm_at s' node ''sgtk_ass_diskfile'') = Some (StrV (''ERROR: '' @ not_a_work_file))
        \<and> map_option raw (parm_at s' node ''sgtk_ar_filename'') = Some (StrV (''ERROR: '' @ not_a_work_file)))"
proof (intro conjI allI impI)
  fix msg n p
  assume "fst (compute_output_path env self node template_name aov_name s) = Inl (TankError msg)
      \<and> nodes s node = Some n \<and> map_of (parms n) parm_name = Some p
      \<and> ptemplate p = StringParmTemplate"
  then show "compute_and_set env self node parm_name template_name aov_name s =
        (Inr (),
         s\<lparr>log := log s @ [(Warning, nname n @ '': '' @ msg)],
           nodes := (nodes s)(node \<mapsto>
             update_parm parm_name (\<lambda>q. q\<lparr>locked := True\<rparr>)
               (update_parm parm_name (\<lambda>q. q\<lparr>raw := StrV (''ERROR: '' @ msg)\<rparr>)
                 (update_parm parm_name (\<lambda>q. q\<lparr>locked := False\<rparr>) n)))\<rparr>)"
    by (intro compute_and_set_run) auto
next
  fix msg s'
  show "compute_and_set env self node parm_name template_name aov_name s \<noteq> (Inl (TankError msg), s')"
    by (rule compute_and_set_never_tank)
next
  fix n p1 p2 r s'
  assume a: "not_managed self (hip_path s)
        \<and> nodes s node = Some n \<and> \<not> startswith (nname n) ''original0''
        \<and> map_of (parms n) ''sgtk_ass_diskfile'' = Some p1 \<and> ptemplate p1 = StringParmTemplate
        \<and> map_of (parms n) ''sgtk_ar_filename'' = Some p2 \<and> ptemplate p2 = StringParmTemplate
        \<and> reset_render_path env self (Some node) s = (r, s')"
  then obtain s2 where loop: "foreach TK_RENDER_TEMPLATE_MAPPING
                 (\<lambda>item. compute_and_set env self node (fst item) (snd item) None) s = (Inr (), s2)"
      and v1: "map_option raw (parm_at s2 node ''sgtk_ass_diskfile'') = Some (StrV (''ERROR: '' @ not_a_work_file))"
      and v2: "map_option raw (parm_at s2 node ''sgtk_ar_filename'') = Some (StrV (''ERROR: '' @ not_a_work_file))"
    using render_template_loop_unparsed [where self = self and s = s and nid = node and n = n and ?p1.0 = p1 and ?p2.0 = p2 and env = env] by blast
  from a have run: "reset_render_path env self (Some node) s = (r, s')"
    and n: "nodes s node = Some n" "\<not> startswith (nname n) ''original0''" by auto
  show "map_option raw (parm_at s' node ''sgtk_ass_diskfile'') = Some (StrV (''ERROR: '' @ not_a_work_file))"
    by (rule reset_render_path_keeps_raw
          [where P = "\<lambda>x. x = Some (StrV (''ERROR: '' @ not_a_work_file))", OF _ run n loop v1]) simp
  show "map_option raw (parm_at s' node ''sgtk_ar_filename'') = Some (StrV (''ERROR: '' @ not_a_work_file))"
    by (rule reset_render_path_keeps_raw
          [where P = "\<lambda>x. x = Some (StrV (''ERROR: '' @ not_a_work_file))", OF _ run n loop v2]) simp
qed

theorem compute_and_set_error_placeholder_witness:
  "fst (compute_and_set demo_env demo_handler 1 ''sgtk_ar_filename'' ''output_render_template'' None
          demo_unmanaged_state) = Inr ()
   \<and> map_option raw (parm_at (snd (compute_and_set demo_env demo_handler 1 ''sgtk_ar_filename''
                                      ''output_render_template'' None demo_unmanaged_state))
                              1 ''sgtk_ar_filename'')
       = Some (StrV (''ERROR: '' @ not_a_work_file))
   \<and> map_option raw (parm_at (snd (reset_render_path demo_env demo_handler (Some 1) demo_unmanaged_state))
                              1 ''sgtk_ass_diskfile'')
       = Some (StrV (''ERROR: '' @ not_a_work_file))
   \<and> map_option raw (parm_at (snd (reset_render_path demo_env demo_handler (Some 1) demo_unmanaged_state))
                              1 ''sgtk_ar_filename'')
       = Some (StrV (''ERROR: '' @ not_a_work_file))"
proof -
  let ?locked = "(mk_parm StringParmTemplate (StrV []))\<lparr>locked := True\<rparr>"
  have unparsed: "not_managed demo_handler (hip_path demo_unmanaged_state)"
    by (simp add: not_managed_def demo_handler_def demo_template_def demo_unmanaged_state_def
          demo_state_def)
  have f: "fst (compute_output_path demo_env demo_handler 1 ''output_render_template'' None
                  demo_unmanaged_state) = Inl (TankError not_a_work_file)"
    using compute_output_path_unparsed [OF unparsed] by simp
  have n: "nodes demo_unmanaged_state 1 = Some demo_tk_node"
    by (simp add: demo_unmanaged_state_def demo_state_def demo_nodes_def)
  have p2: "map_of (parms demo_tk_node) ''sgtk_ar_filename'' = Some ?locked"
    by (simp add: demo_tk_node_def demo_tk_parms_def set_raw_def)
  have p1: "map_of (parms demo_tk_node) ''sgtk_ass_diskfile'' = Some ?locked"
    by (simp add: demo_tk_node_def demo_tk_parms_def set_raw_def)
  have t: "ptemplate ?locked = StringParmTemplate"
    by (simp add: mk_parm_def)
  have nm: "\<not> startswith (nname demo_tk_node) ''original0''"
    by (simp add: demo_tk_node_def startswith_def)
  note inst = compute_and_set_error_placeholder
         [where env = demo_env and self = demo_handler and node = 1
            and parm_name = "''sgtk_ar_filename''" and template_name = "''output_render_template''"
            and aov_name = None and s = demo_unmanaged_state]
  from inst f n p2 t
  have run: "compute_and_set demo_env demo_handler 1 ''sgtk_ar_filename'' ''output_render_template'' None
          demo_unmanaged_state =
        (Inr (),
         demo_unmanaged_state\<lparr>log := log demo_unmanaged_state @
               [(Warning, nname demo_tk_node @ '': '' @ not_a_work_file)],
           nodes := (nodes demo_unmanaged_state)(1 \<mapsto>
             update_parm ''sgtk_ar_filename'' (\<lambda>q. q\<lparr>locked := True\<rparr>)
               (update_parm ''sgtk_ar_filename'' (\<lambda>q. q\<lparr>raw := StrV (''ERROR: '' @ not_a_work_file)\<rparr>)
                 (update_parm ''sgtk_ar_filename'' (\<lambda>q. q\<lparr>locked := False\<rparr>) demo_tk_node)))\<rparr>)"
    by blast
  have a: "fst (compute_and_set demo_env demo_handler 1 ''sgtk_ar_filename'' ''output_render_template'' None
          demo_unmanaged_state) = Inr ()"
    using run by simp
  have b: "map_option raw (parm_at (snd (compute_and_set demo_env demo_handler 1 ''sgtk_ar_filename''
                                      ''output_render_template'' None demo_unmanaged_state))
                              1 ''sgtk_ar_filename'')
       = Some (StrV (''ERROR: '' @ not_a_work_file))"
    using run p2 by (simp add: parm_at_def map_of_update_parm)
  have r: "reset_render_path demo_env demo_handler (Some 1) demo_unmanaged_state =
             (fst (reset_render_path demo_env demo_handler (Some 1) demo_unmanaged_state),
              snd (reset_render_path demo_env demo_handler (Some 1) demo_unmanaged_state))"
    by simp
  from inst unparsed n nm p1 p2 t r
  have c: "map_option raw (parm_at (snd (reset_render_path demo_env demo_handler (Some 1) demo_unmanaged_state))
                              1 ''sgtk_ass_diskfile'')
       = Some (StrV (''ERROR: '' @ not_a_work_file))
     \<and> map_option raw (parm_at (snd (reset_render_path demo_env demo_handler (Some 1) demo_unmanaged_state))
                              1 ''sgtk_ar_filename'')
       = Some (StrV (''ERROR: '' @ not_a_work_file))"
    by blast
  from a b c show ?thesis by blast
qed

subsection \<open>Copying the value of a script-language selector\<close>

text \<open>
  C8.  \<open>_copy_parm_values\<close> copies a parameter that is no folder, has no keyframes and
  is no string parameter by \<open>target_parm.set(source_parm.eval())\<close>.  When the target
  refuses the value with a TypeError and the name of the parameter starts with \<open>lpre\<close>
  or \<open>lpost\<close>, the integer \<open>0\<close> of the source sets the target to \<open>"hscript"\<close> and the
  integer \<open>1\<close> sets it to \<open>"python"\<close>; for any other name the TypeError is raised again
  and nothing is written.
\<close>

theorem copy_parm_value_script_language:
  assumes "nodes s source_node = Some a" and "map_of (parms a) nm = Some sp"
    and "ptemplate sp \<noteq> FolderSetParmTemplate" and "ptemplate sp \<noteq> StringParmTemplate"
    and "keyframes sp = []"
    and "nodes s target_node = Some b" and "map_of (parms b) nm = Some tp" and "\<not> locked tp"
    and "\<not> parm_accepts (ptemplate tp) (eval_parm env sp)"
  shows "((startswith nm ''lpre'' \<or> startswith nm ''lpost'') \<and> raw sp = IntV 0 \<longrightarrow>
           copy_parm_value env source_node target_node nm s =
             (Inr (), s\<lparr>nodes := (nodes s)(target_node \<mapsto>
                          update_parm nm (\<lambda>q. q\<lparr>raw := StrV ''hscript''\<rparr>) b)\<rparr>))
       \<and> ((startswith nm ''lpre'' \<or> startswith nm ''lpost'') \<and> raw sp = IntV 1 \<longrightarrow>
           copy_parm_value env source_node target_node nm s =
             (Inr (), s\<lparr>nodes := (nodes s)(target_node \<mapsto>
                          update_parm nm (\<lambda>q. q\<lparr>raw := StrV ''python''\<rparr>) b)\<rparr>))
       \<and> (\<not> (startswith nm ''lpre'' \<or> startswith nm ''lpost'') \<longrightarrow>
           copy_parm_value env source_node target_node nm s = (Inl TypeError, s))"
  using assms
  by (auto simp: copy_parm_value_def prim_defs value_map_at_def value_map_def py_index_def
        eval_parm_def parm_accepts_def split: pval.splits)

theorem copy_parm_value_script_language_witness:
  "map_option raw (parm_at (snd (copy_parm_value demo_env 1 2 ''lpreframe'' demo_script_state)) 2 ''lpreframe'')
     = Some (StrV ''hscript'')
   \<and> map_option raw (parm_at (snd (copy_parm_value demo_env 1 2 ''lpostframe'' demo_script_state)) 2 ''lpostframe'')
     = Some (StrV ''python'')
   \<and> copy_parm_value demo_env 1 2 ''ar_threads'' demo_script_state = (Inl TypeError, demo_script_state)"
proof -
  let ?a = "(demo_other ''old'' [])\<lparr>parms :=
                          [(''lpreframe'', mk_parm MenuParmTemplate (IntV 0)),
                           (''lpostframe'', mk_parm MenuParmTemplate (IntV 1)),
                           (''ar_threads'', mk_parm IntParmTemplate (IntV 8))]\<rparr>"
  let ?b = "(demo_other ''new'' [])\<lparr>parms :=
                          [(''lpreframe'', mk_parm StringParmTemplate (StrV [])),
                           (''lpostframe'', mk_parm StringParmTemplate (StrV [])),
                           (''ar_threads'', mk_parm StringParmTemplate (StrV []))]\<rparr>"
  have a: "nodes demo_script_state 1 = Some ?a" and b: "nodes demo_script_state 2 = Some ?b"
    by (simp_all add: demo_script_state_def)
  have pre: "copy_parm_value demo_env 1 2 ''lpreframe'' demo_script_state =
      (Inr (), demo_script_state\<lparr>nodes := (nodes demo_script_state)(2 \<mapsto>
                 update_parm ''lpreframe'' (\<lambda>q. q\<lparr>raw := StrV ''hscript''\<rparr>) ?b)\<rparr>)"
    using copy_parm_value_script_language
      [where s = demo_script_state and source_node = 1 and target_node = 2 and a = ?a and b = ?b
         and nm = "''lpreframe''" and sp = "mk_parm MenuParmTemplate (IntV 0)"
         and tp = "mk_parm StringParmTemplate (StrV [])" and env = demo_env, OF a _ _ _ _ b]
    by (simp add: mk_parm_def parm_accepts_def eval_parm_def startswith_def)
  have post: "copy_parm_value demo_env 1 2 ''lpostframe'' demo_script_state =
      (Inr (), demo_script_state\<lparr>nodes := (nodes demo_script_state)(2 \<mapsto>
                 update_parm ''lpostframe'' (\<lambda>q. q\<lparr>raw := StrV ''python''\<rparr>) ?b)\<rparr>)"
    using copy_parm_value_script_language
      [where s = demo_script_state and source_node = 1 and target_node = 2 and a = ?a and b = ?b
         and nm = "''lpostframe''" and sp = "mk_parm MenuParmTemplate (IntV 1)"
         and tp = "mk_parm StringParmTemplate (StrV [])" and env = demo_env, OF a _ _ _ _ b]
    by (simp add: mk_parm_def parm_accepts_def eval_parm_def startswith_def)
  have other: "copy_parm_value demo_env 1 2 ''ar_threads'' demo_script_state = (Inl TypeError, demo_script_state)"
    using copy_parm_value_script_language
      [where s = demo_script_state and source_node = 1 and target_node = 2 and a = ?a and b = ?b
         and nm = "''ar_threads''" and sp = "mk_parm IntParmTemplate (IntV 8)"
         and tp = "mk_parm StringParmTemplate (StrV [])" and env = demo_env, OF a _ _ _ _ b]
    by (simp add: mk_parm_def parm_accepts_def eval_parm_def startswith_def)
  from pre post other show ?thesis
    by (simp add: parm_at_def map_of_update_parm)
qed

subsection \<open>Connections\<close>

lemma length_set_slot: "length (set_slot i c xs) = max (length xs) (Suc i)"
  by (auto simp: set_slot_def)

lemma nth_set_slot:
  "j < max (length xs) (Suc i) \<Longrightarrow>
   set_slot i c xs ! j = (if j = i then c else if j < length xs then xs ! j else None)"
  by (auto simp: set_slot_def nth_list_update nth_append)

lemma set_slot_in: "i < length xs \<Longrightarrow> set_slot i c xs = xs[i := c]"
  by (simp add: set_slot_def)

lemma setInput_run:
  "nodes s nid = Some n \<Longrightarrow>
   setInput nid i item s =
     (Inr (), s\<lparr>nodes := (nodes s)(nid \<mapsto> n\<lparr>inputs := set_slot i (Some (item, 0)) (inputs n)\<rparr>)\<rparr>)"
  by (simp add: setInput_def modify_node_def)

lemma copy_loop_run:
  "nodes s t = Some b \<Longrightarrow>
   foreach conns (\<lambda>connection. setInput t (fst connection) (fst (snd connection))) s =
     (Inr (), if conns = [] then s
              else s\<lparr>nodes := (nodes s)(t \<mapsto> b\<lparr>inputs := copied_inputs conns (inputs b)\<rparr>)\<rparr>)"
proof (induction conns arbitrary: s b)
  case Nil
  then show ?case by (simp add: ret_def)
next
  case (Cons c conns)
  let ?b1 = "b\<lparr>inputs := set_slot (fst c) (Some (fst (snd c), 0)) (inputs b)\<rparr>"
  let ?s1 = "s\<lparr>nodes := (nodes s)(t \<mapsto> ?b1)\<rparr>"
  have 1: "setInput t (fst c) (fst (snd c)) s = (Inr (), ?s1)"
    by (rule setInput_run [OF Cons.prems])
  have 2: "nodes ?s1 t = Some ?b1" by simp
  show ?case
    using Cons.IH [OF 2]
    by (simp add: bnd_def 1 copied_inputs_def)
qed

lemma copied_inputs_keep:
  "i \<notin> fst ` set cs \<Longrightarrow> i < length ins \<Longrightarrow>
   i < length (copied_inputs cs ins) \<and> copied_inputs cs ins ! i = ins ! i"
proof (induction cs arbitrary: ins)
  case Nil
  then show ?case by (simp add: copied_inputs_def)
next
  case (Cons c cs)
  have "i < length (set_slot (fst c) (Some (fst (snd c), 0)) ins)"
    using Cons.prems by (simp add: length_set_slot)
  moreover have "set_slot (fst c) (Some (fst (snd c), 0)) ins ! i = ins ! i"
    using Cons.prems by (simp add: nth_set_slot)
  ultimately show ?case
    using Cons.IH [of "set_slot (fst c) (Some (fst (snd c), 0)) ins"] Cons.prems
    by (simp add: copied_inputs_def)
qed

lemma copied_inputs_slot:
  "distinct (map fst cs) \<Longrightarrow> (i, m, out) \<in> set cs \<Longrightarrow>
   i < length (copied_inputs cs ins) \<and> copied_inputs cs ins ! i = Some (m, 0)"
proof (induction cs arbitrary: ins)
  case Nil
  then show ?case by simp
next
  case (Cons c cs)
  let ?ins1 = "set_slot (fst c) (Some (fst (snd c), 0)) ins"
  show ?case
  proof (cases "c = (i, m, out)")
    case True
    then have "i \<notin> fst ` set cs" using Cons.prems by auto
    moreover have "i < length ?ins1" using True by (simp add: length_set_slot)
    moreover have "?ins1 ! i = Some (m, 0)" using True by (simp add: nth_set_slot)
    ultimately show ?thesis
      using copied_inputs_keep [of i cs ?ins1] by (simp add: copied_inputs_def)
  next
    case False
    then have "(i, m, out) \<in> set cs" using Cons.prems by auto
    then show ?thesis
      using Cons.IH [of ?ins1] Cons.prems by (simp add: copied_inputs_def)
  qed
qed

lemma distinct_input_connections: "distinct (map fst (input_connections_of n))"
proof -
  have "map fst (concat (map (\<lambda>i. case xs ! i of None \<Rightarrow> [] | Some c \<Rightarrow> [(i, c)]) is))
          = filter (\<lambda>i. xs ! i \<noteq> None) is" for xs :: "(node_id \<times> nat) option list" and "is"
    by (induction "is") (auto split: option.splits)
  then show ?thesis by (simp add: input_connections_of_def)
qed

lemma move_loop_run:
  "\<forall>c \<in> set L. nodes s (fst c) \<noteq> None \<Longrightarrow>
   foreach L (\<lambda>connection. setInput (fst connection) (snd connection) tgt) s =
     (Inr (), s\<lparr>nodes := fold (rewire_slot tgt) L (nodes s)\<rparr>)"
proof (induction L arbitrary: s)
  case Nil
  then show ?case by (simp add: ret_def)
next
  case (Cons c L)
  from Cons.prems obtain n where n: "nodes s (fst c) = Some n" by auto
  define s1 where "s1 = s\<lparr>nodes := (nodes s)(fst c \<mapsto> n\<lparr>inputs := set_slot (snd c) (Some (tgt, 0)) (inputs n)\<rparr>)\<rparr>"
  have 1: "setInput (fst c) (snd c) tgt s = (Inr (), s1)"
    unfolding s1_def by (rule setInput_run [OF n])
  have 2: "\<forall>c \<in> set L. nodes s1 (fst c) \<noteq> None"
    using Cons.prems by (auto simp: s1_def)
  have 3: "rewire_slot tgt c (nodes s) = nodes s1"
    using n by (simp add: rewire_slot_def s1_def)
  have 4: "s1\<lparr>nodes := Z\<rparr> = s\<lparr>nodes := Z\<rparr>" for Z
    by (simp add: s1_def)
  have "foreach (c # L) (\<lambda>connection. setInput (fst connection) (snd connection) tgt) s
          = foreach L (\<lambda>connection. setInput (fst connection) (snd connection) tgt) s1"
    by (simp add: bnd_def 1)
  also have "\<dots> = (Inr (), s1\<lparr>nodes := fold (rewire_slot tgt) L (nodes s1)\<rparr>)"
    by (rule Cons.IH [OF 2])
  also have "\<dots> = (Inr (), s\<lparr>nodes := fold (rewire_slot tgt) (c # L) (nodes s)\<rparr>)"
    by (simp only: 4 fold_simps comp_apply 3)
  finally show ?case .
qed

lemma rewired_fold:
  "\<forall>c \<in> set L. \<exists>n. f (fst c) = Some n \<and> snd c < length (inputs n) \<Longrightarrow>
   fold (rewire_slot tgt) L f d = map_option (rewired tgt L d) (f d)"
proof (induction L arbitrary: d rule: rev_induct)
  case Nil
  show ?case
    by (cases "f d") (simp_all add: rewired_def map_nth)
next
  case (snoc c L)
  from snoc.prems have prem: "\<forall>c \<in> set L. \<exists>n. f (fst c) = Some n \<and> snd c < length (inputs n)"
    by auto
  from snoc.prems obtain n0 where n0: "f (fst c) = Some n0" "snd c < length (inputs n0)"
    by auto
  define G where "G = fold (rewire_slot tgt) L f"
  have G: "G d = map_option (rewired tgt L d) (f d)" for d
    unfolding G_def by (rule snoc.IH [OF prem])
  have step: "fold (rewire_slot tgt) (L @ [c]) f = rewire_slot tgt c G"
    by (simp add: G_def)
  show ?case
  proof (cases "d = fst c")
    case False
    then have "\<And>j. ((d, j) \<in> set (L @ [c])) = ((d, j) \<in> set L)"
      by (cases c) auto
    then have "rewired tgt (L @ [c]) d = rewired tgt L d"
      by (simp add: rewired_def fun_eq_iff)
    with False show ?thesis
      unfolding step by (simp add: rewire_slot_def G n0)
  next
    case True
    have "set_slot (snd c) (Some (tgt, 0)) (inputs (rewired tgt L (fst c) n0))
            = inputs (rewired tgt (L @ [c]) (fst c) n0)"
      using n0
      by (intro nth_equalityI)
         (auto simp: rewired_def set_slot_in nth_list_update prod_eq_iff)
    then have "(rewired tgt L (fst c) n0)\<lparr>inputs :=
                  set_slot (snd c) (Some (tgt, 0)) (inputs (rewired tgt L (fst c) n0))\<rparr>
               = rewired tgt (L @ [c]) (fst c) n0"
      by (simp add: rewired_def)
    with True show ?thesis
      unfolding step by (simp add: rewire_slot_def G n0)
  qed
qed


lemma in_outputs_of:
  "(d, i) \<in> set (outputs_of s src) \<longleftrightarrow>
     d < next_id s \<and> (\<exists>n. nodes s d = Some n \<and> i < length (inputs n)
        \<and> (\<exists>out. inputs n ! i = Some (src, out)))"
  by (auto simp: outputs_of_def all_ids_def slots_to_def split: option.splits)

lemma move_outputs_run:
  assumes "nodes s source_node = Some a"
  shows "move_outputs source_node target_node s =
           (Inr (), s\<lparr>nodes := (\<lambda>d. map_option (rewired target_node (outputs_of s source_node) d)
                                       (nodes s d))\<rparr>)"
proof -
  let ?L = "outputs_of s source_node"
  have ex: "\<forall>c \<in> set ?L. \<exists>n. nodes s (fst c) = Some n \<and> snd c < length (inputs n)"
  proof
    fix c assume "c \<in> set ?L"
    then have "(fst c, snd c) \<in> set ?L" by simp
    then show "\<exists>n. nodes s (fst c) = Some n \<and> snd c < length (inputs n)"
      unfolding in_outputs_of by blast
  qed
  then have "\<forall>c \<in> set ?L. nodes s (fst c) \<noteq> None" by auto
  from move_loop_run [OF this, of target_node]
  have "move_outputs source_node target_node s =
          (Inr (), s\<lparr>nodes := fold (rewire_slot target_node) ?L (nodes s)\<rparr>)"
    using assms
    by (simp add: move_outputs_def outputConnections_def bnd_def get_node_def)
  moreover have "fold (rewire_slot target_node) ?L (nodes s) =
                   (\<lambda>d. map_option (rewired target_node ?L d) (nodes s d))"
    using rewired_fold [OF ex] by (simp add: fun_eq_iff)
  ultimately show ?thesis by simp
qed

subsection \<open>Copying the input connections\<close>

text \<open>
  C4.  When the source has strictly more input connections than the target has input
  connectors, \<open>_copy_inputs\<close> raises \<open>hou.InvalidInput\<close> with a message that names
  both nodes and leaves the session as it was.  Otherwise it returns normally, every
  connection of the source is found on the target at the same slot index, from the same
  upstream node, and no other node is touched.
\<close>

theorem copy_inputs_guard:
  assumes a: "nodes s source_node = Some a" and b: "nodes s target_node = Some b"
  shows "(connectors b < length (input_connections_of a) \<longrightarrow>
            copy_inputs source_node target_node s =
              (Inl (InvalidInput (not_enough_inputs (nname a) (nname b))), s))
       \<and> (length (input_connections_of a) \<le> connectors b \<longrightarrow>
            (\<exists>s' b'. copy_inputs source_node target_node s = (Inr (), s')
               \<and> nodes s' target_node = Some b'
               \<and> (\<forall>c \<in> set (input_connections_of a).
                     fst c < length (inputs b') \<and> inputs b' ! fst c = Some (fst (snd c), 0))
               \<and> (\<forall>j. j \<noteq> target_node \<longrightarrow> nodes s' j = nodes s j)))"
proof (intro conjI impI)
  assume "connectors b < length (input_connections_of a)"
  then show "copy_inputs source_node target_node s =
              (Inl (InvalidInput (not_enough_inputs (nname a) (nname b))), s)"
    using a b
    by (simp add: copy_inputs_def inputConnections_def inputConnectors_def node_str_def
          node_name_def bnd_def get_node_def ret_def raise_def)
next
  assume le: "length (input_connections_of a) \<le> connectors b"
  let ?cs = "input_connections_of a"
  let ?s' = "if ?cs = [] then s
             else s\<lparr>nodes := (nodes s)(target_node \<mapsto> b\<lparr>inputs := copied_inputs ?cs (inputs b)\<rparr>)\<rparr>"
  let ?b' = "if ?cs = [] then b else b\<lparr>inputs := copied_inputs ?cs (inputs b)\<rparr>"
  have run: "copy_inputs source_node target_node s = (Inr (), ?s')"
    using a b le copy_loop_run [OF b, of ?cs]
    by (simp add: copy_inputs_def inputConnections_def inputConnectors_def bnd_def get_node_def
          ret_def)
  have nb: "nodes ?s' target_node = Some ?b'" using b by simp
  have slots: "\<forall>c \<in> set ?cs. fst c < length (inputs ?b') \<and> inputs ?b' ! fst c = Some (fst (snd c), 0)"
  proof
    fix c assume c: "c \<in> set ?cs"
    then have ne: "?cs \<noteq> []" by auto
    obtain i m out where ceq: "c = (i, m, out)" by (cases c) auto
    from copied_inputs_slot [OF distinct_input_connections, of i m out a "inputs b"] c ceq ne
    show "fst c < length (inputs ?b') \<and> inputs ?b' ! fst c = Some (fst (snd c), 0)"
      by simp
  qed
  have frame: "\<forall>j. j \<noteq> target_node \<longrightarrow> nodes ?s' j = nodes s j" by simp
  from run nb slots frame
  show "\<exists>s' b'. copy_inputs source_node target_node s = (Inr (), s')
               \<and> nodes s' target_node = Some b'
               \<and> (\<forall>c \<in> set (input_connections_of a).
                     fst c < length (inputs b') \<and> inputs b' ! fst c = Some (fst (snd c), 0))
               \<and> (\<forall>j. j \<noteq> target_node \<longrightarrow> nodes s' j = nodes s j)"
    by blast
qed

theorem copy_inputs_guard_witness:
  "copy_inputs 1 2 demo_inputs_state =
     (Inl (InvalidInput (not_enough_inputs ''src'' ''dst'')), demo_inputs_state)
   \<and> fst (copy_inputs 1 3 demo_state) = Inr ()
   \<and> map_option inputs (nodes (snd (copy_inputs 1 3 demo_state)) 3) = Some [Some (2, 0), Some (1, 0)]
   \<and> nodes (snd (copy_inputs 1 3 demo_state)) 1 = nodes demo_state 1"
proof -
  let ?a = "demo_other ''src'' [Some (3, 0), Some (4, 0), Some (5, 0)]"
  let ?b = "(demo_other ''dst'' [])\<lparr>connectors := 2\<rparr>"
  have a: "nodes demo_inputs_state 1 = Some ?a" and b: "nodes demo_inputs_state 2 = Some ?b"
    by (simp_all add: demo_inputs_state_def)
  have more: "connectors ?b < length (input_connections_of ?a)"
    by (simp add: demo_other_def input_connections_of_def upt_rec)
  from copy_inputs_guard [OF a b] more
  have fail: "copy_inputs 1 2 demo_inputs_state =
     (Inl (InvalidInput (not_enough_inputs ''src'' ''dst'')), demo_inputs_state)"
    by (simp add: demo_other_def)
  have a': "nodes demo_state 1 = Some demo_tk_node"
    and b': "nodes demo_state 3 = Some (demo_other ''down'' [None, Some (1, 0)])"
    by (simp_all add: demo_state_def demo_nodes_def)
  have fits: "length (input_connections_of demo_tk_node)
                \<le> connectors (demo_other ''down'' [None, Some (1, 0)])"
    by (simp add: demo_other_def demo_tk_node_def input_connections_of_def)
  from copy_inputs_guard [OF a' b'] fits
  obtain s' where run: "copy_inputs 1 3 demo_state = (Inr (), s')"
    and frame: "\<forall>j. j \<noteq> 3 \<longrightarrow> nodes s' j = nodes demo_state j"
    by blast
  have slots: "map_option inputs (nodes (snd (copy_inputs 1 3 demo_state)) 3)
                 = Some [Some (2, 0), Some (1, 0)]"
    by code_simp
  from fail run frame slots show ?thesis by simp
qed

subsection \<open>Moving the output connections\<close>

text \<open>
  C6.  \<open>_move_outputs\<close> returns normally; every input slot of a downstream node that
  was connected to an output of the source is connected to the target afterwards, at
  the same slot index; and when the target is another node than the source, no input of
  any node is connected to the source any more.
\<close>

theorem move_outputs_rewires:
  assumes a: "nodes s source_node = Some a"
  shows "\<exists>s'. move_outputs source_node target_node s = (Inr (), s')
     \<and> (\<forall>c \<in> set (outputs_of s source_node).
           \<exists>n'. nodes s' (fst c) = Some n' \<and> snd c < length (inputs n')
                \<and> inputs n' ! snd c = Some (target_node, 0))
     \<and> (source_node \<noteq> target_node \<longrightarrow> outputs_of s' source_node = [])"
proof -
  let ?L = "outputs_of s source_node"
  let ?s' = "s\<lparr>nodes := (\<lambda>d. map_option (rewired target_node ?L d) (nodes s d))\<rparr>"
  have run: "move_outputs source_node target_node s = (Inr (), ?s')"
    by (rule move_outputs_run [OF a])
  have moved: "\<forall>c \<in> set ?L.
           \<exists>n'. nodes ?s' (fst c) = Some n' \<and> snd c < length (inputs n')
                \<and> inputs n' ! snd c = Some (target_node, 0)"
  proof
    fix c assume c: "c \<in> set ?L"
    then have "(fst c, snd c) \<in> set ?L" by simp
    then obtain n where n: "nodes s (fst c) = Some n" "snd c < length (inputs n)"
      unfolding in_outputs_of by blast
    have "inputs (rewired target_node ?L (fst c) n) ! snd c = Some (target_node, 0)"
      using n c by (simp add: rewired_def)
    moreover have "snd c < length (inputs (rewired target_node ?L (fst c) n))"
      using n by (simp add: rewired_def)
    ultimately show "\<exists>n'. nodes ?s' (fst c) = Some n' \<and> snd c < length (inputs n')
                \<and> inputs n' ! snd c = Some (target_node, 0)"
      using n by simp
  qed
  have none: "outputs_of ?s' source_node = []" if ne: "source_node \<noteq> target_node"
  proof -
    have "(d, i) \<notin> set (outputs_of ?s' source_node)" for d i
    proof
      assume "(d, i) \<in> set (outputs_of ?s' source_node)"
      then obtain n' out where d: "d < next_id s" and n': "nodes ?s' d = Some n'"
        and i: "i < length (inputs n')" and src: "inputs n' ! i = Some (source_node, out)"
        unfolding in_outputs_of by auto
      from n' obtain n where n: "nodes s d = Some n" and eq: "n' = rewired target_node ?L d n"
        by auto
      from i eq have i': "i < length (inputs n)" by (simp add: rewired_def)
      show False
      proof (cases "(d, i) \<in> set ?L")
        case True
        with src eq i' ne show False by (simp add: rewired_def)
      next
        case False
        with src eq i' have "inputs n ! i = Some (source_node, out)" by (simp add: rewired_def)
        with d n i' have "(d, i) \<in> set ?L" unfolding in_outputs_of by blast
        with False show False by simp
      qed
    qed
    then show ?thesis by (cases "outputs_of ?s' source_node") auto
  qed
  from run moved none show ?thesis by blast
qed

theorem move_outputs_rewires_witness:
  "fst (move_outputs 1 2 demo_state) = Inr ()
   \<and> outputs_of demo_state 1 = [(3, 1)]
   \<and> map_option inputs (nodes (snd (move_outputs 1 2 demo_state)) 3) = Some [None, Some (2, 0)]
   \<and> outputs_of (snd (move_outputs 1 2 demo_state)) 1 = []"
proof -
  have a: "nodes demo_state 1 = Some demo_tk_node"
    by (simp add: demo_state_def demo_nodes_def)
  from move_outputs_rewires [OF a, of 2]
  obtain s' where run: "move_outputs 1 2 demo_state = (Inr (), s')"
    and none: "outputs_of s' 1 = []"
    by auto
  have before: "outputs_of demo_state 1 = [(3, 1)]"
    by code_simp
  have slots: "map_option inputs (nodes (snd (move_outputs 1 2 demo_state)) 3) = Some [None, Some (2, 0)]"
    by code_simp
  from run none before slots show ?thesis by simp
qed

section \<open>The claims about the conversions\<close>

subsection \<open>A native node without a stashed profile is skipped\<close>



end
